theory Spec2Isabelle
  imports Main "HOL-Library.Multiset"
begin

section \<open>The message tool: capability-gated action catalog and action router\<close>

text \<open>
  A shallow embedding of \<^verbatim>\<open>src/agents/tools/message-tool.ts\<close>: the action catalog
  (\<^verbatim>\<open>buildMessageActionList\<close>), the advertised parameter schema
  (\<^verbatim>\<open>buildMessageToolSchema\<close>) and the dispatcher (\<^verbatim>\<open>createMessageTool.execute\<close>).
  Action names, provider names and parameter values are \<^typ>\<open>string\<close>, each character
  read as the UTF-16 code unit of its value (all below 256); the capability entries, which
  the source trims and lower-cases, are lists of UTF-16 code units of any value. A
  JavaScript \<^verbatim>\<open>Set<string>\<close> is the list of its members in insertion order; exceptions are
  values of the type \<open>error\<close>.
\<close>

subsection \<open>Configuration snapshot\<close>

text \<open>
  \<^verbatim>\<open>Record<string, boolean | undefined>\<close>: the per-capability gates of a provider
  section or of an account. A key that is absent (or \<^verbatim>\<open>undefined\<close>) maps to \<open>None\<close>.
\<close>

type_synonym gates = "string \<rightharpoonup> bool"

text \<open>
  A JavaScript string as the list of its UTF-16 code units, and the code units of a
  string of characters.
\<close>

type_synonym jsstring = "nat list"

definition codeUnits :: "string \<Rightarrow> jsstring" where
  "codeUnits s = map of_char s"

text \<open>
  Modelled from the spec: the type \<^verbatim>\<open>ProviderAccount\<close> (the declarations of the
  resolved account types are not in the sources). An account carries the fields that
  \<^verbatim>\<open>message-tool.ts\<close> reads from it: \<^verbatim>\<open>enabled\<close>, the credential source
  (\<^verbatim>\<open>tokenSource\<close> for discord and telegram, \<^verbatim>\<open>botTokenSource\<close> for slack; the value
  \<^verbatim>\<open>"none"\<close> means that no credential is present), the account's own gates
  (\<^verbatim>\<open>account.actions\<close>) and its capability list (\<^verbatim>\<open>account.capabilities\<close>, \<open>None\<close>
  when it is not an array).
\<close>

record account =
  enabled :: bool
  tokenSource :: string
  botTokenSource :: string
  actions :: "gates option"
  capabilities :: "jsstring list option"

text \<open>
  Modelled from the spec: one provider section of \<^verbatim>\<open>ClawdbotConfig\<close> (its declaration is
  not in the sources), with the fields that \<^verbatim>\<open>message-tool.ts\<close> reads:
  \<^verbatim>\<open>cfg.msteams?.enabled\<close>, \<^verbatim>\<open>cfg.<provider>?.actions\<close>, \<^verbatim>\<open>cfg.telegram?.capabilities\<close> and
  \<^verbatim>\<open>cfg.<provider>?.accounts\<close> (the values of the object, in its key order; an absent
  object is the empty list). \<open>credentialsResolved\<close> is the outcome of the credential
  resolver on the section (\<^verbatim>\<open>credentialsResolved(config) -> bool\<close>).
\<close>

record provider_section =
  sectionEnabled :: "bool option"
  sectionActions :: "gates option"
  sectionCapabilities :: "jsstring list option"
  sectionAccounts :: "account list"
  credentialsResolved :: bool

record ClawdbotConfig =
  discord :: "provider_section option"
  slack :: "provider_section option"
  telegram :: "provider_section option"
  whatsapp :: "provider_section option"
  msteams :: "provider_section option"

text \<open>\<^verbatim>\<open>cfg.<provider>?.actions\<close> and \<^verbatim>\<open>cfg.<provider>?.accounts\<close>.\<close>

definition actionsOf :: "provider_section option \<Rightarrow> gates option" where
  "actionsOf s = (case s of None \<Rightarrow> None | Some p \<Rightarrow> sectionActions p)"

definition accountsOf :: "provider_section option \<Rightarrow> account list" where
  "accountsOf s = (case s of None \<Rightarrow> [] | Some p \<Rightarrow> sectionAccounts p)"

text \<open>
  Modelled from the spec: \<^verbatim>\<open>createActionGate\<close> of \<^verbatim>\<open>common.js\<close>, which is not in the
  sources. "Explicit true/false overrides the default; absence falls back to
  defaultValue."
\<close>

definition createActionGate :: "gates option \<Rightarrow> string \<Rightarrow> bool \<Rightarrow> bool" where
  "createActionGate acts key defaultValue =
     (case acts of
        None \<Rightarrow> defaultValue
      | Some m \<Rightarrow> (case m key of None \<Rightarrow> defaultValue | Some b \<Rightarrow> b))"

text \<open>
  Modelled from the spec: \<^verbatim>\<open>listEnabled<Provider>Accounts(config)\<close>, which are not in
  the sources. They list the accounts of the provider that are enabled; the credential
  filter is applied by the caller, as in the source.
\<close>

definition listEnabledDiscordAccounts :: "ClawdbotConfig \<Rightarrow> account list" where
  "listEnabledDiscordAccounts cfg = filter enabled (accountsOf (discord cfg))"

definition listEnabledSlackAccounts :: "ClawdbotConfig \<Rightarrow> account list" where
  "listEnabledSlackAccounts cfg = filter enabled (accountsOf (slack cfg))"

definition listEnabledTelegramAccounts :: "ClawdbotConfig \<Rightarrow> account list" where
  "listEnabledTelegramAccounts cfg = filter enabled (accountsOf (telegram cfg))"

text \<open>
  Modelled from the spec: \<^verbatim>\<open>resolveMSTeamsCredentials\<close> of \<^verbatim>\<open>msteams/token.js\<close>, which
  is not in the sources; only whether it yields credentials is used.
\<close>

definition resolveMSTeamsCredentials :: "provider_section \<Rightarrow> bool" where
  "resolveMSTeamsCredentials s = credentialsResolved s"

subsection \<open>The action catalog\<close>

definition AllMessageActions :: "string list" where
  "AllMessageActions =
     [''send'', ''poll'', ''react'', ''reactions'', ''read'', ''edit'', ''delete'',
      ''pin'', ''unpin'', ''list-pins'', ''permissions'', ''thread-create'',
      ''thread-list'', ''thread-reply'', ''search'', ''sticker'', ''member-info'',
      ''role-info'', ''emoji-list'', ''emoji-upload'', ''sticker-upload'', ''role-add'',
      ''role-remove'', ''channel-info'', ''channel-list'', ''voice-status'',
      ''event-list'', ''event-create'', ''timeout'', ''kick'', ''ban'']"

text \<open>\<^verbatim>\<open>actions.add(a)\<close> on a set kept in insertion order.\<close>

definition add :: "'a \<Rightarrow> 'a list \<Rightarrow> 'a list" where
  "add a s = (if a \<in> set s then s else s @ [a])"

text \<open>One guarded block \<^verbatim>\<open>if (c) { actions.add(a1); ...; actions.add(an); }\<close>.\<close>

definition addWhen :: "bool \<times> string list \<Rightarrow> string list \<Rightarrow> string list" where
  "addWhen blk s = (if fst blk then fold add (snd blk) s else s)"

text \<open>
  The loop of \<^verbatim>\<open>isSlackActionEnabled\<close>: the first account whose gate grants the key
  returns \<^verbatim>\<open>true\<close>. The gate of an account is \<^verbatim>\<open>account.actions ?? cfg.slack?.actions\<close>.
\<close>

fun slackAccountsGrant :: "gates option \<Rightarrow> account list \<Rightarrow> string \<Rightarrow> bool \<Rightarrow> bool" where
  "slackAccountsGrant sectionActs [] key defaultValue = False"
| "slackAccountsGrant sectionActs (a # as) key defaultValue =
     (if createActionGate (case actions a of Some g \<Rightarrow> Some g | None \<Rightarrow> sectionActs)
           key defaultValue
      then True
      else slackAccountsGrant sectionActs as key defaultValue)"

definition slackAccounts :: "ClawdbotConfig \<Rightarrow> account list" where
  "slackAccounts cfg =
     filter (\<lambda>a. botTokenSource a \<noteq> ''none'') (listEnabledSlackAccounts cfg)"

definition slackEnabled :: "ClawdbotConfig \<Rightarrow> bool" where
  "slackEnabled cfg = (length (slackAccounts cfg) > 0)"

definition isSlackActionEnabled :: "ClawdbotConfig \<Rightarrow> string \<Rightarrow> bool \<Rightarrow> bool" where
  "isSlackActionEnabled cfg key defaultValue =
     (if \<not> slackEnabled cfg then False
      else slackAccountsGrant (actionsOf (slack cfg)) (slackAccounts cfg) key defaultValue)"

definition discordAccounts :: "ClawdbotConfig \<Rightarrow> account list" where
  "discordAccounts cfg =
     filter (\<lambda>a. tokenSource a \<noteq> ''none'') (listEnabledDiscordAccounts cfg)"

definition discordEnabled :: "ClawdbotConfig \<Rightarrow> bool" where
  "discordEnabled cfg = (length (discordAccounts cfg) > 0)"

definition discordGate :: "ClawdbotConfig \<Rightarrow> string \<Rightarrow> bool \<Rightarrow> bool" where
  "discordGate cfg = createActionGate (actionsOf (discord cfg))"

definition telegramAccounts :: "ClawdbotConfig \<Rightarrow> account list" where
  "telegramAccounts cfg =
     filter (\<lambda>a. tokenSource a \<noteq> ''none'') (listEnabledTelegramAccounts cfg)"

definition telegramEnabled :: "ClawdbotConfig \<Rightarrow> bool" where
  "telegramEnabled cfg = (length (telegramAccounts cfg) > 0)"

definition telegramGate :: "ClawdbotConfig \<Rightarrow> string \<Rightarrow> bool \<Rightarrow> bool" where
  "telegramGate cfg = createActionGate (actionsOf (telegram cfg))"

definition whatsappGate :: "ClawdbotConfig \<Rightarrow> string \<Rightarrow> bool \<Rightarrow> bool" where
  "whatsappGate cfg = createActionGate (actionsOf (whatsapp cfg))"

definition canDiscordReactions :: "ClawdbotConfig \<Rightarrow> bool" where
  "canDiscordReactions cfg = (discordEnabled cfg \<and> discordGate cfg ''reactions'' True)"

definition canSlackReactions :: "ClawdbotConfig \<Rightarrow> bool" where
  "canSlackReactions cfg = isSlackActionEnabled cfg ''reactions'' True"

definition canTelegramReactions :: "ClawdbotConfig \<Rightarrow> bool" where
  "canTelegramReactions cfg = (telegramEnabled cfg \<and> telegramGate cfg ''reactions'' True)"

definition canWhatsAppReactions :: "ClawdbotConfig \<Rightarrow> bool" where
  "canWhatsAppReactions cfg =
     (case whatsapp cfg of Some w \<Rightarrow> whatsappGate cfg ''reactions'' True | None \<Rightarrow> False)"

definition canAnyReactions :: "ClawdbotConfig \<Rightarrow> bool" where
  "canAnyReactions cfg =
     (canDiscordReactions cfg \<or> canSlackReactions cfg \<or> canTelegramReactions cfg
      \<or> canWhatsAppReactions cfg)"

definition canDiscordMessages :: "ClawdbotConfig \<Rightarrow> bool" where
  "canDiscordMessages cfg = (discordEnabled cfg \<and> discordGate cfg ''messages'' True)"

definition canSlackMessages :: "ClawdbotConfig \<Rightarrow> bool" where
  "canSlackMessages cfg = isSlackActionEnabled cfg ''messages'' True"

definition canDiscordPins :: "ClawdbotConfig \<Rightarrow> bool" where
  "canDiscordPins cfg = (discordEnabled cfg \<and> discordGate cfg ''pins'' True)"

definition canSlackPins :: "ClawdbotConfig \<Rightarrow> bool" where
  "canSlackPins cfg = isSlackActionEnabled cfg ''pins'' True"

definition msteamsEnabled :: "ClawdbotConfig \<Rightarrow> bool" where
  "msteamsEnabled cfg =
     ((case msteams cfg of None \<Rightarrow> None | Some m \<Rightarrow> sectionEnabled m) \<noteq> Some False
      \<and> (case msteams cfg of None \<Rightarrow> False | Some m \<Rightarrow> resolveMSTeamsCredentials m))"

definition canDiscordPolls :: "ClawdbotConfig \<Rightarrow> bool" where
  "canDiscordPolls cfg = (discordEnabled cfg \<and> discordGate cfg ''polls'' True)"

definition canWhatsAppPolls :: "ClawdbotConfig \<Rightarrow> bool" where
  "canWhatsAppPolls cfg =
     (case whatsapp cfg of Some w \<Rightarrow> whatsappGate cfg ''polls'' True | None \<Rightarrow> False)"

definition canDiscordRoles :: "ClawdbotConfig \<Rightarrow> bool" where
  "canDiscordRoles cfg = (discordEnabled cfg \<and> discordGate cfg ''roles'' False)"

text \<open>
  The guarded blocks of \<^verbatim>\<open>buildMessageActionList\<close>, in source order: the condition of
  each \<^verbatim>\<open>if\<close> and the actions it adds.
\<close>

definition actionBlocks :: "ClawdbotConfig \<Rightarrow> (bool \<times> string list) list" where
  "actionBlocks cfg =
     [(canAnyReactions cfg, [''react'']),
      (canDiscordReactions cfg \<or> canSlackReactions cfg, [''reactions'']),
      (canDiscordMessages cfg \<or> canSlackMessages cfg, [''read'', ''edit'', ''delete'']),
      (canDiscordPins cfg \<or> canSlackPins cfg, [''pin'', ''unpin'', ''list-pins'']),
      (canDiscordPolls cfg \<or> canWhatsAppPolls cfg \<or> msteamsEnabled cfg, [''poll'']),
      (discordEnabled cfg \<and> discordGate cfg ''permissions'' True, [''permissions'']),
      (discordEnabled cfg \<and> discordGate cfg ''threads'' True,
         [''thread-create'', ''thread-list'', ''thread-reply'']),
      (discordEnabled cfg \<and> discordGate cfg ''search'' True, [''search'']),
      (discordEnabled cfg \<and> discordGate cfg ''stickers'' True, [''sticker'']),
      ((discordEnabled cfg \<and> discordGate cfg ''memberInfo'' True)
         \<or> isSlackActionEnabled cfg ''memberInfo'' True, [''member-info'']),
      (discordEnabled cfg \<and> discordGate cfg ''roleInfo'' True, [''role-info'']),
      ((discordEnabled cfg \<and> discordGate cfg ''reactions'' True)
         \<or> isSlackActionEnabled cfg ''emojiList'' True, [''emoji-list'']),
      (discordEnabled cfg \<and> discordGate cfg ''emojiUploads'' True, [''emoji-upload'']),
      (discordEnabled cfg \<and> discordGate cfg ''stickerUploads'' True, [''sticker-upload'']),
      (canDiscordRoles cfg, [''role-add'', ''role-remove'']),
      (discordEnabled cfg \<and> discordGate cfg ''channelInfo'' True,
         [''channel-info'', ''channel-list'']),
      (discordEnabled cfg \<and> discordGate cfg ''voiceStatus'' True, [''voice-status'']),
      (discordEnabled cfg \<and> discordGate cfg ''events'' True,
         [''event-list'', ''event-create'']),
      (discordEnabled cfg \<and> discordGate cfg ''moderation'' False,
         [''timeout'', ''kick'', ''ban''])]"

definition buildMessageActionList :: "ClawdbotConfig \<Rightarrow> string list" where
  "buildMessageActionList cfg = fold addWhen (actionBlocks cfg) [''send'']"

subsection \<open>The advertised parameter schema\<close>

text \<open>
  \<^verbatim>\<open>String.prototype.trim\<close> strips the white space and the line terminators of
  ECMAScript from both ends: tab, line feed, vertical tab, form feed, carriage return,
  blank, no-break space (U+00A0), U+1680, U+2000 to U+200A, the line and paragraph
  separators (U+2028, U+2029), U+202F, U+205F, U+3000 and the byte order mark (U+FEFF).
  All of them are single code units.
\<close>

definition isWhiteSpace :: "nat \<Rightarrow> bool" where
  "isWhiteSpace u =
     (u \<in> set [0x0009, 0x000A, 0x000B, 0x000C, 0x000D, 0x0020, 0x00A0, 0x1680, 0x2028,
               0x2029, 0x202F, 0x205F, 0x3000, 0xFEFF]
      \<or> (0x2000 \<le> u \<and> u \<le> 0x200A))"

definition String_trim :: "jsstring \<Rightarrow> jsstring" where
  "String_trim s = rev (dropWhile isWhiteSpace (rev (dropWhile isWhiteSpace s)))"

text \<open>The same on a string of characters, each read as the code unit of its value.\<close>

definition trimChars :: "string \<Rightarrow> string" where
  "trimChars s =
     rev (dropWhile (\<lambda>c. isWhiteSpace (of_char c))
            (rev (dropWhile (\<lambda>c. isWhiteSpace (of_char c)) s)))"

text \<open>
  \<^verbatim>\<open>String.prototype.toLowerCase\<close>: the letters A to Z go to a to z; the two code units
  outside ASCII whose lower case has an ASCII letter are the Kelvin sign (U+212A, to k)
  and the dotted capital I (U+0130, to i followed by U+0307). Every other code unit is
  kept: the remaining case mappings of Unicode send code units outside ASCII to code
  units outside ASCII, so they change no comparison with an ASCII string, which is the
  only use of the result.
\<close>

definition lowerUnit :: "nat \<Rightarrow> jsstring" where
  "lowerUnit u =
     (if 0x0041 \<le> u \<and> u \<le> 0x005A then [u + 0x0020]
      else if u = 0x0130 then [0x0069, 0x0307]
      else if u = 0x212A then [0x006B]
      else [u])"

definition toLowerCase :: "jsstring \<Rightarrow> jsstring" where
  "toLowerCase s = concat (map lowerUnit s)"

text \<open>
  The schema values built with \<^verbatim>\<open>Type.*\<close>. \<open>TDescribed\<close> is a schema with a
  \<^verbatim>\<open>description\<close> annotation.
\<close>

datatype schema =
    TString
  | TNumber
  | TBoolean
  | TLiteral string
  | TArray schema
  | TObject "(string \<times> schema) list"
  | TOptional schema
  | TUnion "schema list"
  | TDescribed string schema

definition MessageToolCommonSchema :: "(string \<times> schema) list" where
  "MessageToolCommonSchema =
     [(''provider'', TOptional TString),
      (''media'', TOptional TString),
      (''buttons'', TOptional (TDescribed
          ''Telegram inline keyboard buttons (array of button rows)''
          (TArray (TArray (TObject [(''text'', TString), (''callback_data'', TString)]))))),
      (''messageId'', TOptional TString),
      (''replyTo'', TOptional TString),
      (''threadId'', TOptional TString),
      (''accountId'', TOptional TString),
      (''dryRun'', TOptional TBoolean),
      (''bestEffort'', TOptional TBoolean),
      (''gifPlayback'', TOptional TBoolean),
      (''emoji'', TOptional TString),
      (''remove'', TOptional TBoolean),
      (''limit'', TOptional TNumber),
      (''before'', TOptional TString),
      (''after'', TOptional TString),
      (''around'', TOptional TString),
      (''pollQuestion'', TOptional TString),
      (''pollOption'', TOptional (TArray TString)),
      (''pollDurationHours'', TOptional TNumber),
      (''pollMulti'', TOptional TBoolean),
      (''channelId'', TOptional TString),
      (''channelIds'', TOptional (TArray TString)),
      (''guildId'', TOptional TString),
      (''userId'', TOptional TString),
      (''authorId'', TOptional TString),
      (''authorIds'', TOptional (TArray TString)),
      (''roleId'', TOptional TString),
      (''roleIds'', TOptional (TArray TString)),
      (''emojiName'', TOptional TString),
      (''stickerId'', TOptional (TArray TString)),
      (''stickerName'', TOptional TString),
      (''stickerDesc'', TOptional TString),
      (''stickerTags'', TOptional TString),
      (''threadName'', TOptional TString),
      (''autoArchiveMin'', TOptional TNumber),
      (''query'', TOptional TString),
      (''eventName'', TOptional TString),
      (''eventType'', TOptional TString),
      (''startTime'', TOptional TString),
      (''endTime'', TOptional TString),
      (''desc'', TOptional TString),
      (''location'', TOptional TString),
      (''durationMin'', TOptional TNumber),
      (''until'', TOptional TString),
      (''reason'', TOptional TString),
      (''deleteDays'', TOptional TNumber),
      (''includeArchived'', TOptional TBoolean),
      (''participant'', TOptional TString),
      (''fromMe'', TOptional TBoolean),
      (''gatewayUrl'', TOptional TString),
      (''gatewayToken'', TOptional TString),
      (''timeoutMs'', TOptional TNumber)]"

text \<open>
  \<^verbatim>\<open>buildMessageToolSchemaFromActions\<close>. The object spread \<^verbatim>\<open>...props\<close> comes after the
  keys \<^verbatim>\<open>action\<close>, \<^verbatim>\<open>to\<close> and \<^verbatim>\<open>message\<close>, none of which is a key of the common schema,
  so the object is the three fields followed by the properties.
\<close>

definition buildMessageToolSchemaFromActions :: "string list \<Rightarrow> bool \<Rightarrow> schema" where
  "buildMessageToolSchemaFromActions acts includeButtons =
     (let props = (if \<not> includeButtons
                   then filter (\<lambda>kv. fst kv \<noteq> ''buttons'') MessageToolCommonSchema
                   else MessageToolCommonSchema);
          sendSchemas =
            (if ''send'' \<in> set acts
             then [TObject ([(''action'', TLiteral ''send''), (''to'', TString),
                             (''message'', TString)] @ props)]
             else []);
          nonSendActions = filter (\<lambda>a. a \<noteq> ''send'') acts;
          schemas =
            (if length nonSendActions > 0
             then sendSchemas @
                  [TObject ([(''action'', TUnion (map TLiteral nonSendActions)),
                             (''to'', TOptional TString),
                             (''message'', TOptional TString)] @ props)]
             else sendSchemas)
      in if length schemas = 1 then hd schemas else TUnion schemas)"

definition MessageToolSchema :: schema where
  "MessageToolSchema = buildMessageToolSchemaFromActions AllMessageActions True"

text \<open>
  One pass of \<^verbatim>\<open>for (const entry of ...) { trimmed = String(entry).trim();
  if (trimmed) caps.add(trimmed.toLowerCase()) }\<close>; the entries are strings.
\<close>

definition addCapabilities :: "jsstring list \<Rightarrow> jsstring list \<Rightarrow> jsstring list" where
  "addCapabilities entries caps =
     fold (\<lambda>entry cs. let trimmed = String_trim entry
                        in if trimmed \<noteq> [] then add (toLowerCase trimmed) cs else cs)
       entries caps"

definition hasTelegramInlineButtons :: "ClawdbotConfig \<Rightarrow> bool" where
  "hasTelegramInlineButtons cfg =
     (let caps0 = addCapabilities
                    (case telegram cfg of
                       None \<Rightarrow> []
                     | Some t \<Rightarrow> (case sectionCapabilities t of None \<Rightarrow> [] | Some es \<Rightarrow> es))
                    [];
          caps = fold (\<lambda>account cs.
                         case capabilities account of
                           None \<Rightarrow> cs
                         | Some accountCaps \<Rightarrow> addCapabilities accountCaps cs)
                   (accountsOf (telegram cfg)) caps0
      in codeUnits ''inlinebuttons'' \<in> set caps)"

definition buildMessageToolSchema :: "ClawdbotConfig \<Rightarrow> schema" where
  "buildMessageToolSchema cfg =
     (let acts = buildMessageActionList cfg;
          telegramEnabled' =
            list_ex (\<lambda>a. tokenSource a \<noteq> ''none'') (listEnabledTelegramAccounts cfg);
          includeButtons = (telegramEnabled' \<and> hasTelegramInlineButtons cfg)
      in buildMessageToolSchemaFromActions acts includeButtons)"

text \<open>
  The object shapes that a schema advertises (the members of a union, or the schema
  itself), and whether a shape has a given field.
\<close>

definition schemaVariants :: "schema \<Rightarrow> schema list" where
  "schemaVariants s = (case s of TUnion ss \<Rightarrow> ss | _ \<Rightarrow> [s])"

definition hasField :: "string \<Rightarrow> schema \<Rightarrow> bool" where
  "hasField k s = (case s of TObject fs \<Rightarrow> k \<in> set (map fst fs) | _ \<Rightarrow> False)"

subsection \<open>Parameter bag and extractor\<close>

text \<open>
  JavaScript values as they occur in the parameter bag and in the requests handed to
  the collaborators. Numbers are integers: no property below depends on a fraction.
\<close>

datatype jsvalue =
    JUndefined
  | JNull
  | JBool bool
  | JNum int
  | JStr string
  | JArr "jsvalue list"
  | JObj "(string \<times> jsvalue) list"

text \<open>\<^verbatim>\<open>Record<string, unknown>\<close>, and \<^verbatim>\<open>params[key]\<close>: an absent key reads \<^verbatim>\<open>undefined\<close>.\<close>

type_synonym params = "(string \<times> jsvalue) list"

definition getProp :: "params \<Rightarrow> string \<Rightarrow> jsvalue" where
  "getProp params key = (case map_of params key of None \<Rightarrow> JUndefined | Some v \<Rightarrow> v)"

text \<open>
  The failures of the router (every \<^verbatim>\<open>throw new Error(...)\<close> of the source and of the
  extractor), named as in the error taxonomy of the specification.
\<close>

datatype error =
    MissingRequiredParameter string
  | InvalidParameterType string
  | UnknownAction string
  | UnsupportedActionForProvider string string
  | ProviderResolutionFailure string
  | DownstreamProviderError string

text \<open>The option bag of the readers, and the values of the options left out.\<close>

record read_opts =
  required :: bool
  allowEmpty :: bool
  trim :: bool
  integer :: bool
  label :: "string option"

definition defaults :: read_opts where
  "defaults = \<lparr>required = False, allowEmpty = False, trim = True, integer = False,
      label = None\<rparr>"

text \<open>
  Modelled from the spec: \<^verbatim>\<open>readStringParam\<close>, \<^verbatim>\<open>readNumberParam\<close> and
  \<^verbatim>\<open>readStringArrayParam\<close> of \<^verbatim>\<open>common.js\<close>, which is not in the sources. A missing
  value fails with \<open>MissingRequiredParameter key\<close> when it is required and reads
  \<^verbatim>\<open>undefined\<close> otherwise; a present value of the wrong shape fails with
  \<open>InvalidParameterType key\<close>; \<^verbatim>\<open>trim\<close> strips white space before the emptiness check;
  \<^verbatim>\<open>allowEmpty\<close> lets an empty string stand for a present value. The specification does
  not describe \<^verbatim>\<open>label\<close>, which is carried and not used.
\<close>

definition missing :: "string \<Rightarrow> read_opts \<Rightarrow> error + 'a option" where
  "missing key opts = (if required opts then Inl (MissingRequiredParameter key) else Inr None)"

definition readStringParam :: "params \<Rightarrow> string \<Rightarrow> read_opts \<Rightarrow> error + string option" where
  "readStringParam params key opts =
     (case getProp params key of
        JUndefined \<Rightarrow> missing key opts
      | JStr raw \<Rightarrow>
          (let v = (if trim opts then trimChars raw else raw)
           in if v = [] \<and> \<not> allowEmpty opts then missing key opts else Inr (Some v))
      | _ \<Rightarrow> Inl (InvalidParameterType key))"

definition readNumberParam :: "params \<Rightarrow> string \<Rightarrow> read_opts \<Rightarrow> error + int option" where
  "readNumberParam params key opts =
     (case getProp params key of
        JUndefined \<Rightarrow> missing key opts
      | JNum n \<Rightarrow> Inr (Some n)
      | _ \<Rightarrow> Inl (InvalidParameterType key))"

fun stringItems :: "jsvalue list \<Rightarrow> string list option" where
  "stringItems [] = Some []"
| "stringItems (JStr s # vs) = map_option (\<lambda>ss. s # ss) (stringItems vs)"
| "stringItems (_ # vs) = None"

definition readStringArrayParam ::
  "params \<Rightarrow> string \<Rightarrow> read_opts \<Rightarrow> error + string list option" where
  "readStringArrayParam params key opts =
     (case getProp params key of
        JUndefined \<Rightarrow> missing key opts
      | JArr vs \<Rightarrow>
          (case stringItems vs of
             None \<Rightarrow> Inl (InvalidParameterType key)
           | Some ss \<Rightarrow> Inr (Some ss))
      | _ \<Rightarrow> Inl (InvalidParameterType key))"

subsection \<open>Collaborators and the trace of an invocation\<close>

text \<open>
  The outbound calls of the router, with the request object of each. The slack handler
  takes the threading context as an optional third argument.
\<close>

datatype call =
    SendMessage jsvalue
  | SendPoll jsvalue
  | HandleDiscordAction jsvalue ClawdbotConfig
  | HandleSlackAction jsvalue ClawdbotConfig "jsvalue option"
  | HandleTelegramAction jsvalue ClawdbotConfig
  | HandleWhatsAppAction jsvalue ClawdbotConfig

text \<open>
  What one invocation does, in order: an extractor call on a key of the parameter bag,
  the provider resolution (with the explicit provider it was given), an outbound call.
  A direct property read such as \<^verbatim>\<open>params.dryRun\<close> or \<^verbatim>\<open>params.buttons\<close> cannot fail and
  is not an event.
\<close>

datatype event = Extract string | ResolveProvider "string option" | Call call

text \<open>
  The collaborators are parameters of the router: the configuration store, the provider
  selection, the account-id normaliser, and the outcome of every outbound call.
\<close>

record 'r collaborators =
  loadConfig :: ClawdbotConfig
  resolveMessageProviderSelection :: "ClawdbotConfig \<Rightarrow> string option \<Rightarrow> error + string"
  normalizeAccountId :: "string \<Rightarrow> string"
  perform :: "call \<Rightarrow> error + 'r"

record MessageToolOptions =
  agentAccountId :: "string option"
  config :: "ClawdbotConfig option"
  currentChannelId :: "string option"
  currentThreadTs :: "string option"
  replyToMode :: "string option"
  hasRepliedRef :: "bool option"

text \<open>\<^verbatim>\<open>jsonResult(result)\<close> wraps the outcome of the generic path; a handler's outcome is
  returned as it is.\<close>

datatype 'r tool_result = jsonResult 'r | Direct 'r

text \<open>A computation yields the events it performed and a value or the error thrown.\<close>

type_synonym 'a exec = "event list \<times> (error + 'a)"

definition ret :: "'a \<Rightarrow> 'a exec" where
  "ret a = ([], Inr a)"

definition throw :: "error \<Rightarrow> 'a exec" where
  "throw e = ([], Inl e)"

definition andThen :: "'a exec \<Rightarrow> ('a \<Rightarrow> 'b exec) \<Rightarrow> 'b exec" where
  "andThen m f =
     (case m of
        (t, Inl e) \<Rightarrow> (t, Inl e)
      | (t, Inr a) \<Rightarrow> (case f a of (t', r) \<Rightarrow> (t @ t', r)))"

definition readString :: "params \<Rightarrow> string \<Rightarrow> read_opts \<Rightarrow> string option exec" where
  "readString params key opts = ([Extract key], readStringParam params key opts)"

definition readNumber :: "params \<Rightarrow> string \<Rightarrow> read_opts \<Rightarrow> int option exec" where
  "readNumber params key opts = ([Extract key], readNumberParam params key opts)"

definition readStringArray :: "params \<Rightarrow> string \<Rightarrow> read_opts \<Rightarrow> string list option exec" where
  "readStringArray params key opts = ([Extract key], readStringArrayParam params key opts)"

text \<open>A read with \<^verbatim>\<open>required: true\<close>, whose result is a string.\<close>

definition readStringReq :: "params \<Rightarrow> string \<Rightarrow> read_opts \<Rightarrow> string exec" where
  "readStringReq params key opts =
     ([Extract key],
      case readStringParam params key opts of
        Inl e \<Rightarrow> Inl e
      | Inr None \<Rightarrow> Inl (MissingRequiredParameter key)
      | Inr (Some v) \<Rightarrow> Inr v)"

definition resolveProvider ::
  "'r collaborators \<Rightarrow> ClawdbotConfig \<Rightarrow> string option \<Rightarrow> string exec" where
  "resolveProvider env cfg explicit =
     ([ResolveProvider explicit], resolveMessageProviderSelection env cfg explicit)"

definition invoke :: "'r collaborators \<Rightarrow> call \<Rightarrow> 'r exec" where
  "invoke env c = ([Call c], perform env c)"

definition returnJson :: "'r exec \<Rightarrow> 'r tool_result exec" where
  "returnJson m = andThen m (\<lambda>result. ret (jsonResult result))"

definition returnAwait :: "'r exec \<Rightarrow> 'r tool_result exec" where
  "returnAwait m = andThen m (\<lambda>result. ret (Direct result))"

text \<open>Optional values as JavaScript values; \<^verbatim>\<open>Boolean(x)\<close>; \<^verbatim>\<open>typeof x === "boolean" ? x :
  undefined\<close>; \<^verbatim>\<open>s || undefined\<close>.\<close>

definition ostr :: "string option \<Rightarrow> jsvalue" where
  "ostr v = (case v of None \<Rightarrow> JUndefined | Some s \<Rightarrow> JStr s)"

definition onum :: "int option \<Rightarrow> jsvalue" where
  "onum v = (case v of None \<Rightarrow> JUndefined | Some n \<Rightarrow> JNum n)"

definition obool :: "bool option \<Rightarrow> jsvalue" where
  "obool v = (case v of None \<Rightarrow> JUndefined | Some b \<Rightarrow> JBool b)"

definition ostrs :: "string list option \<Rightarrow> jsvalue" where
  "ostrs v = (case v of None \<Rightarrow> JUndefined | Some ss \<Rightarrow> JArr (map JStr ss))"

definition truthy :: "jsvalue \<Rightarrow> bool" where
  "truthy v =
     (case v of
        JUndefined \<Rightarrow> False
      | JNull \<Rightarrow> False
      | JBool b \<Rightarrow> b
      | JNum n \<Rightarrow> n \<noteq> 0
      | JStr s \<Rightarrow> s \<noteq> []
      | JArr vs \<Rightarrow> True
      | JObj fs \<Rightarrow> True)"

definition booleanParam :: "jsvalue \<Rightarrow> bool option" where
  "booleanParam v = (case v of JBool b \<Rightarrow> Some b | _ \<Rightarrow> None)"

definition orUndefined :: "string option \<Rightarrow> string option" where
  "orUndefined v = (case v of None \<Rightarrow> None | Some s \<Rightarrow> if s = [] then None else Some s)"

text \<open>The projections of a trace: the outbound calls and the extracted keys.\<close>

fun calls :: "event list \<Rightarrow> call list" where
  "calls [] = []"
| "calls (Call c # es) = c # calls es"
| "calls (_ # es) = calls es"


fun resolutions :: "event list \<Rightarrow> string option list" where
  "resolutions [] = []"
| "resolutions (ResolveProvider p # es) = p # resolutions es"
| "resolutions (_ # es) = resolutions es"

definition isProviderHandler :: "call \<Rightarrow> bool" where
  "isProviderHandler c = (case c of SendMessage r \<Rightarrow> False | SendPoll r \<Rightarrow> False | _ \<Rightarrow> True)"

subsection \<open>The dispatcher\<close>

definition resolveAgentAccountId :: "'r collaborators \<Rightarrow> string option \<Rightarrow> string option" where
  "resolveAgentAccountId env v =
     (case v of
        None \<Rightarrow> None
      | Some s \<Rightarrow>
          (let trimmed = trimChars s
           in if trimmed = [] then None else Some (normalizeAccountId env trimmed)))"

text \<open>\<^verbatim>\<open>readStringParam(params, label) ?? readStringParam(params, "to", { required: true })\<close>.\<close>

definition resolveChannelId :: "params \<Rightarrow> string \<Rightarrow> string exec" where
  "resolveChannelId params lbl =
     andThen (readString params lbl defaults) (\<lambda>v.
       case v of
         Some c \<Rightarrow> ret c
       | None \<Rightarrow> readStringReq params ''to'' (defaults\<lparr>required := True\<rparr>))"

definition resolveChatId :: "params \<Rightarrow> string \<Rightarrow> string exec" where
  "resolveChatId params lbl =
     andThen (readString params lbl defaults) (\<lambda>v.
       case v of
         Some c \<Rightarrow> ret c
       | None \<Rightarrow> readStringReq params ''to'' (defaults\<lparr>required := True\<rparr>))"

text \<open>The threading context handed to the slack handler on a send.\<close>

definition slackContext :: "MessageToolOptions \<Rightarrow> jsvalue" where
  "slackContext options =
     JObj [(''currentChannelId'', ostr (currentChannelId options)),
           (''currentThreadTs'', ostr (currentThreadTs options)),
           (''replyToMode'', ostr (replyToMode options)),
           (''hasRepliedRef'',
              case hasRepliedRef options of
                None \<Rightarrow> JUndefined
              | Some b \<Rightarrow> JObj [(''value'', JBool b)])]"

text \<open>
  The branches of \<^verbatim>\<open>execute\<close>, one definition for each \<^verbatim>\<open>if (action === ...)\<close> block, in
  source order. The reads are in the order in which the source evaluates them; a read
  inside an object literal comes when the literal is built.
\<close>

definition execute_send ::
  "'r collaborators \<Rightarrow> MessageToolOptions \<Rightarrow> ClawdbotConfig \<Rightarrow> params \<Rightarrow> string \<Rightarrow> string option
     \<Rightarrow> jsvalue \<Rightarrow> bool \<Rightarrow> 'r tool_result exec" where
  "execute_send env options cfg params provider accountId gateway dryRun =
     andThen (readStringReq params ''to'' (defaults\<lparr>required := True\<rparr>)) (\<lambda>to.
     andThen (readStringReq params ''message'' (defaults\<lparr>required := True, allowEmpty := True\<rparr>)) (\<lambda>message.
     andThen (readString params ''media'' (defaults\<lparr>trim := False\<rparr>)) (\<lambda>mediaUrl.
     andThen (readString params ''replyTo'' defaults) (\<lambda>replyTo.
     andThen (readString params ''threadId'' defaults) (\<lambda>threadId.
     (let buttons = getProp params ''buttons'' in
     (let gifPlayback = (case booleanParam (getProp params ''gifPlayback'') of Some b \<Rightarrow> b | None \<Rightarrow> False) in
     (let bestEffort = booleanParam (getProp params ''bestEffort'') in
     if dryRun then
       returnJson (invoke env (SendMessage
          (JObj [(''to'', JStr to), (''content'', JStr message),
                     (''mediaUrl'', ostr (orUndefined mediaUrl)),
                     (''provider'', ostr (orUndefined (Some provider))),
                     (''accountId'', ostr accountId), (''gifPlayback'', JBool gifPlayback),
                     (''dryRun'', JBool dryRun), (''bestEffort'', obool bestEffort),
                     (''gateway'', gateway)])))
     else if provider = ''discord'' then
       returnAwait (invoke env (HandleDiscordAction
          (JObj [(''action'', JStr ''sendMessage''), (''to'', JStr to),
                 (''content'', JStr message), (''mediaUrl'', ostr mediaUrl),
                 (''replyTo'', ostr replyTo)]) cfg))
     else if provider = ''slack'' then
       returnAwait (invoke env (HandleSlackAction
          (JObj [(''action'', JStr ''sendMessage''), (''to'', JStr to),
                 (''content'', JStr message), (''mediaUrl'', ostr mediaUrl),
                 (''accountId'', ostr accountId),
                 (''threadTs'', ostr (case threadId of Some t \<Rightarrow> Some t | None \<Rightarrow> replyTo))]) cfg (Some (slackContext options))))
     else if provider = ''telegram'' then
       returnAwait (invoke env (HandleTelegramAction
          (JObj [(''action'', JStr ''sendMessage''), (''to'', JStr to),
                 (''content'', JStr message), (''mediaUrl'', ostr mediaUrl),
                 (''replyToMessageId'', ostr replyTo), (''messageThreadId'', ostr threadId),
                 (''accountId'', ostr accountId), (''buttons'', buttons)]) cfg))
     else
       returnJson (invoke env (SendMessage
          (JObj [(''to'', JStr to), (''content'', JStr message),
                     (''mediaUrl'', ostr (orUndefined mediaUrl)),
                     (''provider'', ostr (orUndefined (Some provider))),
                     (''accountId'', ostr accountId), (''gifPlayback'', JBool gifPlayback),
                     (''dryRun'', JBool dryRun), (''bestEffort'', obool bestEffort),
                     (''gateway'', gateway)])))))))))))"

definition execute_poll ::
  "'r collaborators \<Rightarrow> ClawdbotConfig \<Rightarrow> params \<Rightarrow> string \<Rightarrow> jsvalue \<Rightarrow> bool
     \<Rightarrow> 'r tool_result exec" where
  "execute_poll env cfg params provider gateway dryRun =
     andThen (readStringReq params ''to'' (defaults\<lparr>required := True\<rparr>)) (\<lambda>to.
     andThen (readStringReq params ''pollQuestion'' (defaults\<lparr>required := True\<rparr>)) (\<lambda>question.
     andThen (readStringArray params ''pollOption'' (defaults\<lparr>required := True\<rparr>)) (\<lambda>pollOptionRead.
     (let pollOptions = (case pollOptionRead of Some xs \<Rightarrow> xs | None \<Rightarrow> []) in
     (let allowMultiselect = booleanParam (getProp params ''pollMulti'') in
     andThen (readNumber params ''pollDurationHours'' (defaults\<lparr>integer := True\<rparr>)) (\<lambda>durationHours.
     if dryRun then
       (let maxSelections = (if allowMultiselect = Some True
                             then max 2 (int (length pollOptions)) else 1)
        in returnJson (invoke env (SendPoll
            (JObj [(''to'', JStr to), (''question'', JStr question),
                       (''options'', JArr (map JStr pollOptions)),
                       (''maxSelections'', JNum maxSelections),
                       (''durationHours'', onum durationHours), (''provider'', JStr provider),
                       (''dryRun'', JBool dryRun), (''gateway'', gateway)]))))
     else if provider = ''discord'' then
       andThen (readString params ''message'' defaults) (\<lambda>content.
       returnAwait (invoke env (HandleDiscordAction
          (JObj [(''action'', JStr ''poll''), (''to'', JStr to), (''question'', JStr question),
                 (''answers'', JArr (map JStr pollOptions)),
                 (''allowMultiselect'', obool allowMultiselect),
                 (''durationHours'', onum durationHours), (''content'', ostr content)]) cfg)))
     else
       (let maxSelections = (if allowMultiselect = Some True
                             then max 2 (int (length pollOptions)) else 1)
        in returnJson (invoke env (SendPoll
            (JObj [(''to'', JStr to), (''question'', JStr question),
                       (''options'', JArr (map JStr pollOptions)),
                       (''maxSelections'', JNum maxSelections),
                       (''durationHours'', onum durationHours), (''provider'', JStr provider),
                       (''dryRun'', JBool dryRun), (''gateway'', gateway)]))))))))))"

definition execute_react ::
  "'r collaborators \<Rightarrow> ClawdbotConfig \<Rightarrow> params \<Rightarrow> string \<Rightarrow> string \<Rightarrow> string option
     \<Rightarrow> 'r tool_result exec" where
  "execute_react env cfg params action provider accountId =
     andThen (readStringReq params ''messageId'' (defaults\<lparr>required := True\<rparr>)) (\<lambda>messageId.
     andThen (readString params ''emoji'' (defaults\<lparr>allowEmpty := True\<rparr>)) (\<lambda>emoji.
     (let remove = booleanParam (getProp params ''remove'') in
     if provider = ''discord'' then
       andThen (resolveChannelId params ''channelId'') (\<lambda>channelId.
       returnAwait (invoke env (HandleDiscordAction
          (JObj [(''action'', JStr ''react''), (''channelId'', JStr channelId),
                 (''messageId'', JStr messageId), (''emoji'', ostr emoji),
                 (''remove'', obool remove)]) cfg)))
     else if provider = ''slack'' then
       andThen (resolveChannelId params ''channelId'') (\<lambda>channelId.
       returnAwait (invoke env (HandleSlackAction
          (JObj [(''action'', JStr ''react''), (''channelId'', JStr channelId),
                 (''messageId'', JStr messageId), (''emoji'', ostr emoji),
                 (''remove'', obool remove), (''accountId'', ostr accountId)]) cfg None)))
     else if provider = ''telegram'' then
       andThen (resolveChatId params ''chatId'') (\<lambda>chatId.
       returnAwait (invoke env (HandleTelegramAction
          (JObj [(''action'', JStr ''react''), (''chatId'', JStr chatId),
                 (''messageId'', JStr messageId), (''emoji'', ostr emoji),
                 (''remove'', obool remove), (''accountId'', ostr accountId)]) cfg)))
     else if provider = ''whatsapp'' then
       andThen (resolveChatId params ''chatJid'') (\<lambda>chatJid.
       andThen (readString params ''participant'' defaults) (\<lambda>participant.
       returnAwait (invoke env (HandleWhatsAppAction
          (JObj [(''action'', JStr ''react''), (''chatJid'', JStr chatJid),
                 (''messageId'', JStr messageId), (''emoji'', ostr emoji),
                 (''remove'', obool remove), (''participant'', ostr participant),
                 (''accountId'', ostr accountId),
                 (''fromMe'', obool (booleanParam (getProp params ''fromMe'')))]) cfg))))
     else
       throw (UnsupportedActionForProvider action provider))))"

definition execute_reactions ::
  "'r collaborators \<Rightarrow> ClawdbotConfig \<Rightarrow> params \<Rightarrow> string \<Rightarrow> string \<Rightarrow> string option
     \<Rightarrow> 'r tool_result exec" where
  "execute_reactions env cfg params action provider accountId =
     andThen (readStringReq params ''messageId'' (defaults\<lparr>required := True\<rparr>)) (\<lambda>messageId.
     andThen (readNumber params ''limit'' (defaults\<lparr>integer := True\<rparr>)) (\<lambda>limit.
     if provider = ''discord'' then
       andThen (resolveChannelId params ''channelId'') (\<lambda>channelId.
       returnAwait (invoke env (HandleDiscordAction
          (JObj [(''action'', JStr ''reactions''), (''channelId'', JStr channelId),
                 (''messageId'', JStr messageId), (''limit'', onum limit)]) cfg)))
     else if provider = ''slack'' then
       andThen (resolveChannelId params ''channelId'') (\<lambda>channelId.
       returnAwait (invoke env (HandleSlackAction
          (JObj [(''action'', JStr ''reactions''), (''channelId'', JStr channelId),
                 (''messageId'', JStr messageId), (''limit'', onum limit),
                 (''accountId'', ostr accountId)]) cfg None)))
     else
       throw (UnsupportedActionForProvider action provider)))"

definition execute_read ::
  "'r collaborators \<Rightarrow> ClawdbotConfig \<Rightarrow> params \<Rightarrow> string \<Rightarrow> string \<Rightarrow> string option
     \<Rightarrow> 'r tool_result exec" where
  "execute_read env cfg params action provider accountId =
     andThen (readNumber params ''limit'' (defaults\<lparr>integer := True\<rparr>)) (\<lambda>limit.
     andThen (readString params ''before'' defaults) (\<lambda>before.
     andThen (readString params ''after'' defaults) (\<lambda>after.
     andThen (readString params ''around'' defaults) (\<lambda>around.
     if provider = ''discord'' then
       andThen (resolveChannelId params ''channelId'') (\<lambda>channelId.
       returnAwait (invoke env (HandleDiscordAction
          (JObj [(''action'', JStr ''readMessages''), (''channelId'', JStr channelId),
                 (''limit'', onum limit), (''before'', ostr before), (''after'', ostr after),
                 (''around'', ostr around)]) cfg)))
     else if provider = ''slack'' then
       andThen (resolveChannelId params ''channelId'') (\<lambda>channelId.
       returnAwait (invoke env (HandleSlackAction
          (JObj [(''action'', JStr ''readMessages''), (''channelId'', JStr channelId),
                 (''limit'', onum limit), (''before'', ostr before), (''after'', ostr after),
                 (''accountId'', ostr accountId)]) cfg None)))
     else
       throw (UnsupportedActionForProvider action provider)))))"

definition execute_edit ::
  "'r collaborators \<Rightarrow> ClawdbotConfig \<Rightarrow> params \<Rightarrow> string \<Rightarrow> string \<Rightarrow> string option
     \<Rightarrow> 'r tool_result exec" where
  "execute_edit env cfg params action provider accountId =
     andThen (readStringReq params ''messageId'' (defaults\<lparr>required := True\<rparr>)) (\<lambda>messageId.
     andThen (readStringReq params ''message'' (defaults\<lparr>required := True\<rparr>)) (\<lambda>message.
     if provider = ''discord'' then
       andThen (resolveChannelId params ''channelId'') (\<lambda>channelId.
       returnAwait (invoke env (HandleDiscordAction
          (JObj [(''action'', JStr ''editMessage''), (''channelId'', JStr channelId),
                 (''messageId'', JStr messageId), (''content'', JStr message)]) cfg)))
     else if provider = ''slack'' then
       andThen (resolveChannelId params ''channelId'') (\<lambda>channelId.
       returnAwait (invoke env (HandleSlackAction
          (JObj [(''action'', JStr ''editMessage''), (''channelId'', JStr channelId),
                 (''messageId'', JStr messageId), (''content'', JStr message),
                 (''accountId'', ostr accountId)]) cfg None)))
     else
       throw (UnsupportedActionForProvider action provider)))"

definition execute_delete ::
  "'r collaborators \<Rightarrow> ClawdbotConfig \<Rightarrow> params \<Rightarrow> string \<Rightarrow> string \<Rightarrow> string option
     \<Rightarrow> 'r tool_result exec" where
  "execute_delete env cfg params action provider accountId =
     andThen (readStringReq params ''messageId'' (defaults\<lparr>required := True\<rparr>)) (\<lambda>messageId.
     if provider = ''discord'' then
       andThen (resolveChannelId params ''channelId'') (\<lambda>channelId.
       returnAwait (invoke env (HandleDiscordAction
          (JObj [(''action'', JStr ''deleteMessage''), (''channelId'', JStr channelId),
                 (''messageId'', JStr messageId)]) cfg)))
     else if provider = ''slack'' then
       andThen (resolveChannelId params ''channelId'') (\<lambda>channelId.
       returnAwait (invoke env (HandleSlackAction
          (JObj [(''action'', JStr ''deleteMessage''), (''channelId'', JStr channelId),
                 (''messageId'', JStr messageId), (''accountId'', ostr accountId)]) cfg None)))
     else
       throw (UnsupportedActionForProvider action provider))"

definition execute_pins ::
  "'r collaborators \<Rightarrow> ClawdbotConfig \<Rightarrow> params \<Rightarrow> string \<Rightarrow> string \<Rightarrow> string option
     \<Rightarrow> 'r tool_result exec" where
  "execute_pins env cfg params action provider accountId =
     andThen (if action = ''list-pins'' then ret None
              else andThen (readStringReq params ''messageId'' (defaults\<lparr>required := True\<rparr>))
                     (\<lambda>m. ret (Some m))) (\<lambda>messageId.
     andThen (resolveChannelId params ''channelId'') (\<lambda>channelId.
     if provider = ''discord'' then
       (let discordAction = (if action = ''pin'' then ''pinMessage''
            else if action = ''unpin'' then ''unpinMessage'' else ''listPins'')
        in returnAwait (invoke env (HandleDiscordAction
          (JObj [(''action'', JStr discordAction), (''channelId'', JStr channelId),
                 (''messageId'', ostr messageId)]) cfg)))
     else if provider = ''slack'' then
       (let slackAction = (if action = ''pin'' then ''pinMessage''
            else if action = ''unpin'' then ''unpinMessage'' else ''listPins'')
        in returnAwait (invoke env (HandleSlackAction
          (JObj [(''action'', JStr slackAction), (''channelId'', JStr channelId),
                 (''messageId'', ostr messageId), (''accountId'', ostr accountId)]) cfg None)))
     else
       throw (UnsupportedActionForProvider action provider)))"

definition execute_permissions ::
  "'r collaborators \<Rightarrow> ClawdbotConfig \<Rightarrow> params \<Rightarrow> string \<Rightarrow> string \<Rightarrow> 'r tool_result exec" where
  "execute_permissions env cfg params action provider =
     (if provider \<noteq> ''discord'' then
        throw (UnsupportedActionForProvider action provider)
      else
        andThen (resolveChannelId params ''channelId'') (\<lambda>channelId.
        returnAwait (invoke env (HandleDiscordAction
           (JObj [(''action'', JStr ''permissions''), (''channelId'', JStr channelId)]) cfg))))"

definition execute_thread_create ::
  "'r collaborators \<Rightarrow> ClawdbotConfig \<Rightarrow> params \<Rightarrow> string \<Rightarrow> string \<Rightarrow> 'r tool_result exec" where
  "execute_thread_create env cfg params action provider =
     (if provider \<noteq> ''discord'' then
        throw (UnsupportedActionForProvider action provider)
      else
        andThen (readStringReq params ''threadName'' (defaults\<lparr>required := True\<rparr>)) (\<lambda>name.
        andThen (readString params ''messageId'' defaults) (\<lambda>messageId.
        andThen (readNumber params ''autoArchiveMin'' (defaults\<lparr>integer := True\<rparr>)) (\<lambda>autoArchiveMinutes.
        andThen (resolveChannelId params ''channelId'') (\<lambda>channelId.
        returnAwait (invoke env (HandleDiscordAction
           (JObj [(''action'', JStr ''threadCreate''), (''channelId'', JStr channelId),
                  (''name'', JStr name), (''messageId'', ostr messageId),
                  (''autoArchiveMinutes'', onum autoArchiveMinutes)]) cfg)))))))"

definition execute_thread_list ::
  "'r collaborators \<Rightarrow> ClawdbotConfig \<Rightarrow> params \<Rightarrow> string \<Rightarrow> string \<Rightarrow> 'r tool_result exec" where
  "execute_thread_list env cfg params action provider =
     (if provider \<noteq> ''discord'' then
        throw (UnsupportedActionForProvider action provider)
      else
        andThen (readStringReq params ''guildId'' (defaults\<lparr>required := True\<rparr>)) (\<lambda>guildId.
        andThen (readString params ''channelId'' defaults) (\<lambda>channelId.
        (let includeArchived = booleanParam (getProp params ''includeArchived'') in
        andThen (readString params ''before'' defaults) (\<lambda>before.
        andThen (readNumber params ''limit'' (defaults\<lparr>integer := True\<rparr>)) (\<lambda>limit.
        returnAwait (invoke env (HandleDiscordAction
           (JObj [(''action'', JStr ''threadList''), (''guildId'', JStr guildId),
                  (''channelId'', ostr channelId), (''includeArchived'', obool includeArchived),
                  (''before'', ostr before), (''limit'', onum limit)]) cfg))))))))"

definition execute_thread_reply ::
  "'r collaborators \<Rightarrow> ClawdbotConfig \<Rightarrow> params \<Rightarrow> string \<Rightarrow> string \<Rightarrow> 'r tool_result exec" where
  "execute_thread_reply env cfg params action provider =
     (if provider \<noteq> ''discord'' then
        throw (UnsupportedActionForProvider action provider)
      else
        andThen (readStringReq params ''message'' (defaults\<lparr>required := True\<rparr>)) (\<lambda>content.
        andThen (readString params ''media'' (defaults\<lparr>trim := False\<rparr>)) (\<lambda>mediaUrl.
        andThen (readString params ''replyTo'' defaults) (\<lambda>replyTo.
        andThen (resolveChannelId params ''channelId'') (\<lambda>channelId.
        returnAwait (invoke env (HandleDiscordAction
           (JObj [(''action'', JStr ''threadReply''), (''channelId'', JStr channelId),
                  (''content'', JStr content), (''mediaUrl'', ostr mediaUrl),
                  (''replyTo'', ostr replyTo)]) cfg)))))))"

definition execute_search ::
  "'r collaborators \<Rightarrow> ClawdbotConfig \<Rightarrow> params \<Rightarrow> string \<Rightarrow> string \<Rightarrow> 'r tool_result exec" where
  "execute_search env cfg params action provider =
     (if provider \<noteq> ''discord'' then
        throw (UnsupportedActionForProvider action provider)
      else
        andThen (readStringReq params ''guildId'' (defaults\<lparr>required := True\<rparr>)) (\<lambda>guildId.
        andThen (readStringReq params ''query'' (defaults\<lparr>required := True\<rparr>)) (\<lambda>query.
        andThen (readString params ''channelId'' defaults) (\<lambda>channelId.
        andThen (readStringArray params ''channelIds'' defaults) (\<lambda>channelIds.
        andThen (readString params ''authorId'' defaults) (\<lambda>authorId.
        andThen (readStringArray params ''authorIds'' defaults) (\<lambda>authorIds.
        andThen (readNumber params ''limit'' (defaults\<lparr>integer := True\<rparr>)) (\<lambda>limit.
        returnAwait (invoke env (HandleDiscordAction
           (JObj [(''action'', JStr ''searchMessages''), (''guildId'', JStr guildId),
                  (''content'', JStr query), (''channelId'', ostr channelId),
                  (''channelIds'', ostrs channelIds), (''authorId'', ostr authorId),
                  (''authorIds'', ostrs authorIds), (''limit'', onum limit)]) cfg))))))))))"

definition execute_sticker ::
  "'r collaborators \<Rightarrow> ClawdbotConfig \<Rightarrow> params \<Rightarrow> string \<Rightarrow> string \<Rightarrow> 'r tool_result exec" where
  "execute_sticker env cfg params action provider =
     (if provider \<noteq> ''discord'' then
        throw (UnsupportedActionForProvider action provider)
      else
        andThen (readStringArray params ''stickerId'' (defaults\<lparr>required := True, label := Some ''sticker-id''\<rparr>)) (\<lambda>stickerIdRead.
        (let stickerIds = (case stickerIdRead of Some xs \<Rightarrow> xs | None \<Rightarrow> []) in
        andThen (readString params ''message'' defaults) (\<lambda>content.
        andThen (readStringReq params ''to'' (defaults\<lparr>required := True\<rparr>)) (\<lambda>to.
        returnAwait (invoke env (HandleDiscordAction
           (JObj [(''action'', JStr ''sticker''), (''to'', JStr to),
                  (''stickerIds'', JArr (map JStr stickerIds)), (''content'', ostr content)]) cfg)))))))"

definition execute_member_info ::
  "'r collaborators \<Rightarrow> ClawdbotConfig \<Rightarrow> params \<Rightarrow> string \<Rightarrow> string \<Rightarrow> string option
     \<Rightarrow> 'r tool_result exec" where
  "execute_member_info env cfg params action provider accountId =
     andThen (readStringReq params ''userId'' (defaults\<lparr>required := True\<rparr>)) (\<lambda>userId.
     if provider = ''discord'' then
       andThen (readStringReq params ''guildId'' (defaults\<lparr>required := True\<rparr>)) (\<lambda>guildId.
       returnAwait (invoke env (HandleDiscordAction
          (JObj [(''action'', JStr ''memberInfo''), (''guildId'', JStr guildId),
                 (''userId'', JStr userId)]) cfg)))
     else if provider = ''slack'' then
       returnAwait (invoke env (HandleSlackAction
          (JObj [(''action'', JStr ''memberInfo''), (''userId'', JStr userId),
                 (''accountId'', ostr accountId)]) cfg None))
     else
       throw (UnsupportedActionForProvider action provider))"

definition execute_role_info ::
  "'r collaborators \<Rightarrow> ClawdbotConfig \<Rightarrow> params \<Rightarrow> string \<Rightarrow> string \<Rightarrow> 'r tool_result exec" where
  "execute_role_info env cfg params action provider =
     (if provider \<noteq> ''discord'' then
        throw (UnsupportedActionForProvider action provider)
      else
        andThen (readStringReq params ''guildId'' (defaults\<lparr>required := True\<rparr>)) (\<lambda>guildId.
        returnAwait (invoke env (HandleDiscordAction
           (JObj [(''action'', JStr ''roleInfo''), (''guildId'', JStr guildId)]) cfg))))"

definition execute_emoji_list ::
  "'r collaborators \<Rightarrow> ClawdbotConfig \<Rightarrow> params \<Rightarrow> string \<Rightarrow> string \<Rightarrow> string option
     \<Rightarrow> 'r tool_result exec" where
  "execute_emoji_list env cfg params action provider accountId =
     (if provider = ''discord'' then
        andThen (readStringReq params ''guildId'' (defaults\<lparr>required := True\<rparr>)) (\<lambda>guildId.
        returnAwait (invoke env (HandleDiscordAction
           (JObj [(''action'', JStr ''emojiList''), (''guildId'', JStr guildId)]) cfg)))
      else if provider = ''slack'' then
        returnAwait (invoke env (HandleSlackAction
           (JObj [(''action'', JStr ''emojiList''), (''accountId'', ostr accountId)]) cfg None))
      else
        throw (UnsupportedActionForProvider action provider))"

definition execute_emoji_upload ::
  "'r collaborators \<Rightarrow> ClawdbotConfig \<Rightarrow> params \<Rightarrow> string \<Rightarrow> string \<Rightarrow> 'r tool_result exec" where
  "execute_emoji_upload env cfg params action provider =
     (if provider \<noteq> ''discord'' then
        throw (UnsupportedActionForProvider action provider)
      else
        andThen (readStringReq params ''guildId'' (defaults\<lparr>required := True\<rparr>)) (\<lambda>guildId.
        andThen (readStringReq params ''emojiName'' (defaults\<lparr>required := True\<rparr>)) (\<lambda>name.
        andThen (readStringReq params ''media'' (defaults\<lparr>required := True, trim := False\<rparr>)) (\<lambda>mediaUrl.
        andThen (readStringArray params ''roleIds'' defaults) (\<lambda>roleIds.
        returnAwait (invoke env (HandleDiscordAction
           (JObj [(''action'', JStr ''emojiUpload''), (''guildId'', JStr guildId),
                  (''name'', JStr name), (''mediaUrl'', JStr mediaUrl),
                  (''roleIds'', ostrs roleIds)]) cfg)))))))"

definition execute_sticker_upload ::
  "'r collaborators \<Rightarrow> ClawdbotConfig \<Rightarrow> params \<Rightarrow> string \<Rightarrow> string \<Rightarrow> 'r tool_result exec" where
  "execute_sticker_upload env cfg params action provider =
     (if provider \<noteq> ''discord'' then
        throw (UnsupportedActionForProvider action provider)
      else
        andThen (readStringReq params ''guildId'' (defaults\<lparr>required := True\<rparr>)) (\<lambda>guildId.
        andThen (readStringReq params ''stickerName'' (defaults\<lparr>required := True\<rparr>)) (\<lambda>name.
        andThen (readStringReq params ''stickerDesc'' (defaults\<lparr>required := True\<rparr>)) (\<lambda>description.
        andThen (readStringReq params ''stickerTags'' (defaults\<lparr>required := True\<rparr>)) (\<lambda>tags.
        andThen (readStringReq params ''media'' (defaults\<lparr>required := True, trim := False\<rparr>)) (\<lambda>mediaUrl.
        returnAwait (invoke env (HandleDiscordAction
           (JObj [(''action'', JStr ''stickerUpload''), (''guildId'', JStr guildId),
                  (''name'', JStr name), (''description'', JStr description),
                  (''tags'', JStr tags), (''mediaUrl'', JStr mediaUrl)]) cfg))))))))"

definition execute_role_change ::
  "'r collaborators \<Rightarrow> ClawdbotConfig \<Rightarrow> params \<Rightarrow> string \<Rightarrow> string \<Rightarrow> 'r tool_result exec" where
  "execute_role_change env cfg params action provider =
     (if provider \<noteq> ''discord'' then
        throw (UnsupportedActionForProvider action provider)
      else
        andThen (readStringReq params ''guildId'' (defaults\<lparr>required := True\<rparr>)) (\<lambda>guildId.
        andThen (readStringReq params ''userId'' (defaults\<lparr>required := True\<rparr>)) (\<lambda>userId.
        andThen (readStringReq params ''roleId'' (defaults\<lparr>required := True\<rparr>)) (\<lambda>roleId.
        (let discordAction = (if action = ''role-add'' then ''roleAdd'' else ''roleRemove'') in
        returnAwait (invoke env (HandleDiscordAction
           (JObj [(''action'', JStr discordAction), (''guildId'', JStr guildId),
                  (''userId'', JStr userId), (''roleId'', JStr roleId)]) cfg)))))))"

definition execute_channel_info ::
  "'r collaborators \<Rightarrow> ClawdbotConfig \<Rightarrow> params \<Rightarrow> string \<Rightarrow> string \<Rightarrow> 'r tool_result exec" where
  "execute_channel_info env cfg params action provider =
     (if provider \<noteq> ''discord'' then
        throw (UnsupportedActionForProvider action provider)
      else
        andThen (readStringReq params ''channelId'' (defaults\<lparr>required := True\<rparr>)) (\<lambda>channelId.
        returnAwait (invoke env (HandleDiscordAction
           (JObj [(''action'', JStr ''channelInfo''), (''channelId'', JStr channelId)]) cfg))))"

definition execute_channel_list ::
  "'r collaborators \<Rightarrow> ClawdbotConfig \<Rightarrow> params \<Rightarrow> string \<Rightarrow> string \<Rightarrow> 'r tool_result exec" where
  "execute_channel_list env cfg params action provider =
     (if provider \<noteq> ''discord'' then
        throw (UnsupportedActionForProvider action provider)
      else
        andThen (readStringReq params ''guildId'' (defaults\<lparr>required := True\<rparr>)) (\<lambda>guildId.
        returnAwait (invoke env (HandleDiscordAction
           (JObj [(''action'', JStr ''channelList''), (''guildId'', JStr guildId)]) cfg))))"

definition execute_voice_status ::
  "'r collaborators \<Rightarrow> ClawdbotConfig \<Rightarrow> params \<Rightarrow> string \<Rightarrow> string \<Rightarrow> 'r tool_result exec" where
  "execute_voice_status env cfg params action provider =
     (if provider \<noteq> ''discord'' then
        throw (UnsupportedActionForProvider action provider)
      else
        andThen (readStringReq params ''guildId'' (defaults\<lparr>required := True\<rparr>)) (\<lambda>guildId.
        andThen (readStringReq params ''userId'' (defaults\<lparr>required := True\<rparr>)) (\<lambda>userId.
        returnAwait (invoke env (HandleDiscordAction
           (JObj [(''action'', JStr ''voiceStatus''), (''guildId'', JStr guildId),
                  (''userId'', JStr userId)]) cfg)))))"

definition execute_event_list ::
  "'r collaborators \<Rightarrow> ClawdbotConfig \<Rightarrow> params \<Rightarrow> string \<Rightarrow> string \<Rightarrow> 'r tool_result exec" where
  "execute_event_list env cfg params action provider =
     (if provider \<noteq> ''discord'' then
        throw (UnsupportedActionForProvider action provider)
      else
        andThen (readStringReq params ''guildId'' (defaults\<lparr>required := True\<rparr>)) (\<lambda>guildId.
        returnAwait (invoke env (HandleDiscordAction
           (JObj [(''action'', JStr ''eventList''), (''guildId'', JStr guildId)]) cfg))))"

definition execute_event_create ::
  "'r collaborators \<Rightarrow> ClawdbotConfig \<Rightarrow> params \<Rightarrow> string \<Rightarrow> string \<Rightarrow> 'r tool_result exec" where
  "execute_event_create env cfg params action provider =
     (if provider \<noteq> ''discord'' then
        throw (UnsupportedActionForProvider action provider)
      else
        andThen (readStringReq params ''guildId'' (defaults\<lparr>required := True\<rparr>)) (\<lambda>guildId.
        andThen (readStringReq params ''eventName'' (defaults\<lparr>required := True\<rparr>)) (\<lambda>name.
        andThen (readStringReq params ''startTime'' (defaults\<lparr>required := True\<rparr>)) (\<lambda>startTime.
        andThen (readString params ''endTime'' defaults) (\<lambda>endTime.
        andThen (readString params ''desc'' defaults) (\<lambda>description.
        andThen (readString params ''channelId'' defaults) (\<lambda>channelId.
        andThen (readString params ''location'' defaults) (\<lambda>location.
        andThen (readString params ''eventType'' defaults) (\<lambda>entityType.
        returnAwait (invoke env (HandleDiscordAction
           (JObj [(''action'', JStr ''eventCreate''), (''guildId'', JStr guildId),
                  (''name'', JStr name), (''startTime'', JStr startTime),
                  (''endTime'', ostr endTime), (''description'', ostr description),
                  (''channelId'', ostr channelId), (''location'', ostr location),
                  (''entityType'', ostr entityType)]) cfg)))))))))))"

definition execute_moderation ::
  "'r collaborators \<Rightarrow> ClawdbotConfig \<Rightarrow> params \<Rightarrow> string \<Rightarrow> string \<Rightarrow> 'r tool_result exec" where
  "execute_moderation env cfg params action provider =
     (if provider \<noteq> ''discord'' then
        throw (UnsupportedActionForProvider action provider)
      else
        andThen (readStringReq params ''guildId'' (defaults\<lparr>required := True\<rparr>)) (\<lambda>guildId.
        andThen (readStringReq params ''userId'' (defaults\<lparr>required := True\<rparr>)) (\<lambda>userId.
        andThen (readNumber params ''durationMin'' (defaults\<lparr>integer := True\<rparr>)) (\<lambda>durationMinutes.
        andThen (readString params ''until'' defaults) (\<lambda>until.
        andThen (readString params ''reason'' defaults) (\<lambda>reason.
        andThen (readNumber params ''deleteDays'' (defaults\<lparr>integer := True\<rparr>)) (\<lambda>deleteMessageDays.
        (let discordAction = action in
        returnAwait (invoke env (HandleDiscordAction
           (JObj [(''action'', JStr discordAction), (''guildId'', JStr guildId),
                  (''userId'', JStr userId), (''durationMinutes'', onum durationMinutes),
                  (''until'', ostr until), (''reason'', ostr reason),
                  (''deleteMessageDays'', onum deleteMessageDays)]) cfg))))))))))"


text \<open>The chain of \<^verbatim>\<open>if (action === ...)\<close> tests, ending in the unknown-action failure.\<close>

definition dispatch ::
  "'r collaborators \<Rightarrow> MessageToolOptions \<Rightarrow> ClawdbotConfig \<Rightarrow> params \<Rightarrow> string \<Rightarrow> string
     \<Rightarrow> string option \<Rightarrow> jsvalue \<Rightarrow> bool \<Rightarrow> 'r tool_result exec" where
  "dispatch env options cfg params action provider accountId gateway dryRun =
     (if action = ''send'' then
        execute_send env options cfg params provider accountId gateway dryRun
      else if action = ''poll'' then execute_poll env cfg params provider gateway dryRun
      else if action = ''react'' then execute_react env cfg params action provider accountId
      else if action = ''reactions'' then
        execute_reactions env cfg params action provider accountId
      else if action = ''read'' then execute_read env cfg params action provider accountId
      else if action = ''edit'' then execute_edit env cfg params action provider accountId
      else if action = ''delete'' then execute_delete env cfg params action provider accountId
      else if action = ''pin'' \<or> action = ''unpin'' \<or> action = ''list-pins'' then
        execute_pins env cfg params action provider accountId
      else if action = ''permissions'' then execute_permissions env cfg params action provider
      else if action = ''thread-create'' then
        execute_thread_create env cfg params action provider
      else if action = ''thread-list'' then execute_thread_list env cfg params action provider
      else if action = ''thread-reply'' then
        execute_thread_reply env cfg params action provider
      else if action = ''search'' then execute_search env cfg params action provider
      else if action = ''sticker'' then execute_sticker env cfg params action provider
      else if action = ''member-info'' then
        execute_member_info env cfg params action provider accountId
      else if action = ''role-info'' then execute_role_info env cfg params action provider
      else if action = ''emoji-list'' then
        execute_emoji_list env cfg params action provider accountId
      else if action = ''emoji-upload'' then
        execute_emoji_upload env cfg params action provider
      else if action = ''sticker-upload'' then
        execute_sticker_upload env cfg params action provider
      else if action = ''role-add'' \<or> action = ''role-remove'' then
        execute_role_change env cfg params action provider
      else if action = ''channel-info'' then
        execute_channel_info env cfg params action provider
      else if action = ''channel-list'' then
        execute_channel_list env cfg params action provider
      else if action = ''voice-status'' then
        execute_voice_status env cfg params action provider
      else if action = ''event-list'' then execute_event_list env cfg params action provider
      else if action = ''event-create'' then
        execute_event_create env cfg params action provider
      else if action = ''timeout'' \<or> action = ''kick'' \<or> action = ''ban'' then
        execute_moderation env cfg params action provider
      else throw (UnknownAction action))"

text \<open>
  The head of \<^verbatim>\<open>execute\<close>, up to \<^verbatim>\<open>const dryRun = Boolean(params.dryRun)\<close>: it yields the
  action, the resolved provider, the account id, the gateway object and the dry-run flag.
\<close>

definition prelude ::
  "'r collaborators \<Rightarrow> MessageToolOptions \<Rightarrow> ClawdbotConfig \<Rightarrow> params
     \<Rightarrow> (string \<times> string \<times> string option \<times> jsvalue \<times> bool) exec" where
  "prelude env options cfg params =
     andThen (readStringReq params ''action'' (defaults\<lparr>required := True\<rparr>)) (\<lambda>action.
     andThen (readString params ''provider'' defaults) (\<lambda>explicit.
     andThen (resolveProvider env cfg explicit) (\<lambda>provider.
     andThen (readString params ''accountId'' defaults) (\<lambda>accountIdParam.
     (let accountId = (case accountIdParam of
                         Some a \<Rightarrow> Some a
                       | None \<Rightarrow> resolveAgentAccountId env (agentAccountId options)) in
     andThen (readString params ''gatewayUrl'' (defaults\<lparr>trim := False\<rparr>)) (\<lambda>url.
     andThen (readString params ''gatewayToken'' (defaults\<lparr>trim := False\<rparr>)) (\<lambda>token.
     andThen (readNumber params ''timeoutMs'' defaults) (\<lambda>timeoutMs.
     (let gateway = JObj [(''url'', ostr url), (''token'', ostr token),
                          (''timeoutMs'', onum timeoutMs), (''clientName'', JStr ''agent''),
                          (''mode'', JStr ''agent'')];
          dryRun = truthy (getProp params ''dryRun'')
      in ret (action, provider, accountId, gateway, dryRun))))))))))"

definition effectiveConfig :: "'r collaborators \<Rightarrow> MessageToolOptions \<Rightarrow> ClawdbotConfig" where
  "effectiveConfig env options = (case config options of Some c \<Rightarrow> c | None \<Rightarrow> loadConfig env)"

definition execute ::
  "'r collaborators \<Rightarrow> MessageToolOptions \<Rightarrow> params \<Rightarrow> 'r tool_result exec" where
  "execute env options params =
     (let cfg = effectiveConfig env options
      in andThen (prelude env options cfg params)
           (\<lambda>(action, provider, accountId, gateway, dryRun).
              dispatch env options cfg params action provider accountId gateway dryRun))"

subsection \<open>Vocabulary of the properties\<close>

text \<open>No account of any provider section is enabled, and MS Teams is not enabled with
  credentials.\<close>

definition noEnabledAccounts :: "ClawdbotConfig \<Rightarrow> bool" where
  "noEnabledAccounts cfg =
     (list_all (\<lambda>s. list_all (\<lambda>a. \<not> enabled a) (accountsOf s))
        [discord cfg, slack cfg, telegram cfg, whatsapp cfg, msteams cfg]
      \<and> \<not> msteamsEnabled cfg)"

text \<open>The gate map has the key, with the value \<^verbatim>\<open>true\<close>.\<close>

definition gateExplicitlyTrue :: "gates option \<Rightarrow> string \<Rightarrow> bool" where
  "gateExplicitlyTrue acts key = (case acts of None \<Rightarrow> False | Some m \<Rightarrow> m key = Some True)"

text \<open>Two sections (two configurations) that differ at most in the order of their
  account lists.\<close>

definition permutedSection :: "provider_section option \<Rightarrow> provider_section option \<Rightarrow> bool" where
  "permutedSection s t =
     (case (s, t) of
        (None, None) \<Rightarrow> True
      | (Some p, Some q) \<Rightarrow>
          sectionEnabled q = sectionEnabled p \<and> sectionActions q = sectionActions p
          \<and> sectionCapabilities q = sectionCapabilities p
          \<and> credentialsResolved q = credentialsResolved p
          \<and> mset (sectionAccounts q) = mset (sectionAccounts p)
      | _ \<Rightarrow> False)"

definition permutedAccounts :: "ClawdbotConfig \<Rightarrow> ClawdbotConfig \<Rightarrow> bool" where
  "permutedAccounts cfg cfg' =
     (permutedSection (discord cfg) (discord cfg') \<and> permutedSection (slack cfg) (slack cfg')
      \<and> permutedSection (telegram cfg) (telegram cfg')
      \<and> permutedSection (whatsapp cfg) (whatsapp cfg')
      \<and> permutedSection (msteams cfg) (msteams cfg'))"

text \<open>The failures raised by the extractor.\<close>

definition isExtractionError :: "error \<Rightarrow> bool" where
  "isExtractionError e =
     (case e of MissingRequiredParameter k \<Rightarrow> True | InvalidParameterType k \<Rightarrow> True | _ \<Rightarrow> False)"

text \<open>The observable outcome of a computation: the outbound calls made and the result.\<close>

definition outcome :: "'a exec \<Rightarrow> call list \<times> (error + 'a)" where
  "outcome m = (calls (fst m), snd m)"


text \<open>\<^verbatim>\<open>request[k]\<close> on a request object.\<close>

definition getField :: "jsvalue \<Rightarrow> string \<Rightarrow> jsvalue" where
  "getField v k = (case v of JObj fs \<Rightarrow> getProp fs k | _ \<Rightarrow> JUndefined)"

text \<open>
  An outcome on the provider-agnostic path: no provider handler is called, and a
  successful result comes with exactly one call, of \<^verbatim>\<open>sendMessage\<close> for \<^verbatim>\<open>send\<close> and of
  \<^verbatim>\<open>sendPoll\<close> otherwise, whose request carries the given \<^verbatim>\<open>dryRun\<close> flag.
\<close>

definition genericDispatch :: "string \<Rightarrow> bool \<Rightarrow> call list \<times> (error + 'a) \<Rightarrow> bool" where
  "genericDispatch action dry oc =
     (list_all (\<lambda>c. \<not> isProviderHandler c) (fst oc)
      \<and> (\<forall>r. snd oc = Inr r \<longrightarrow>
            (\<exists>req. fst oc = [if action = ''send'' then SendMessage req else SendPoll req]
               \<and> getField req ''dryRun'' = JBool dry)))"

text \<open>
  The providers an action can be dispatched to, read off the provider tests of its
  branch in \<^verbatim>\<open>execute\<close> (the source has no descriptor table); \<open>None\<close> when the branch
  accepts every provider (\<^verbatim>\<open>send\<close>, \<^verbatim>\<open>poll\<close>) or the action is unknown.
\<close>

definition allowedProviders :: "string \<Rightarrow> string list option" where
  "allowedProviders action =
     (if action \<in> set [''send'', ''poll''] then None
      else if action = ''react'' then Some [''discord'', ''slack'', ''telegram'', ''whatsapp'']
      else if action \<in> set [''reactions'', ''read'', ''edit'', ''delete'', ''pin'', ''unpin'',
                ''list-pins'', ''member-info'', ''emoji-list'']
      then Some [''discord'', ''slack'']
      else if action \<in> set AllMessageActions then Some [''discord'']
      else None)"

text \<open>The actions whose branch tests the provider before it reads any parameter.\<close>

definition providerCheckedFirst :: "string list" where
  "providerCheckedFirst =
     [''permissions'', ''thread-create'', ''thread-list'', ''thread-reply'', ''search'',
      ''sticker'', ''role-info'', ''emoji-list'', ''emoji-upload'', ''sticker-upload'',
      ''role-add'', ''role-remove'', ''channel-info'', ''channel-list'', ''voice-status'',
      ''event-list'', ''event-create'', ''timeout'', ''kick'', ''ban'']"

text \<open>A computation that fails only with an extractor error or with the error of an
  outbound call: the router itself does not reject it.\<close>

definition accepted :: "'r collaborators \<Rightarrow> 'a exec \<Rightarrow> bool" where
  "accepted env m =
     (\<forall>e. snd m = Inl e \<longrightarrow> isExtractionError e \<or> (\<exists>c. perform env c = Inl e))"

text \<open>The events of the head of \<^verbatim>\<open>execute\<close>, and the gateway object of a request
  without gateway parameters.\<close>

definition preludeTrace :: "string option \<Rightarrow> event list" where
  "preludeTrace explicit =
     [Extract ''action'', Extract ''provider'', ResolveProvider explicit, Extract ''accountId'',
      Extract ''gatewayUrl'', Extract ''gatewayToken'', Extract ''timeoutMs'']"

definition noGateway :: jsvalue where
  "noGateway = JObj [(''url'', JUndefined), (''token'', JUndefined), (''timeoutMs'', JUndefined),
      (''clientName'', JStr ''agent''), (''mode'', JStr ''agent'')]"

text \<open>A capability list has an entry that reads \<^verbatim>\<open>inlinebuttons\<close> once trimmed and in lower
  case.\<close>

definition listsInlineButtons :: "jsstring list option \<Rightarrow> bool" where
  "listsInlineButtons caps =
     (case caps of
        None \<Rightarrow> False
      | Some es \<Rightarrow>
          list_ex (\<lambda>entry. toLowerCase (String_trim entry) = codeUnits ''inlinebuttons'') es)"

subsection \<open>Sample configurations and mock collaborators\<close>

text \<open>A provider section with nothing set, a configuration with no section, and an
  enabled account with a credential.\<close>

definition emptySection :: provider_section where
  "emptySection = \<lparr>sectionEnabled = None, sectionActions = None, sectionCapabilities = None,
      sectionAccounts = [], credentialsResolved = False\<rparr>"

definition emptyConfig :: ClawdbotConfig where
  "emptyConfig = \<lparr>discord = None, slack = None, telegram = None, whatsapp = None, msteams = None\<rparr>"

definition tokenAccount :: account where
  "tokenAccount = \<lparr>enabled = True, tokenSource = ''config'', botTokenSource = ''config'',
      actions = None, capabilities = None\<rparr>"

text \<open>One enabled discord account with the given section gates; MS Teams with
  credentials; slack with the given accounts; an account that denies two capabilities.\<close>

definition discordConfig :: "gates option \<Rightarrow> ClawdbotConfig" where
  "discordConfig acts =
     emptyConfig\<lparr>discord := Some (emptySection\<lparr>sectionActions := acts,
        sectionAccounts := [tokenAccount]\<rparr>)\<rparr>"

definition teamsConfig :: ClawdbotConfig where
  "teamsConfig = emptyConfig\<lparr>msteams := Some (emptySection\<lparr>credentialsResolved := True\<rparr>)\<rparr>"

definition slackConfig :: "account list \<Rightarrow> ClawdbotConfig" where
  "slackConfig as = emptyConfig\<lparr>slack := Some (emptySection\<lparr>sectionAccounts := as\<rparr>)\<rparr>"

definition denyingAccount :: account where
  "denyingAccount = tokenAccount\<lparr>actions := Some [''reactions'' \<mapsto> False, ''pins'' \<mapsto> False]\<rparr>"

text \<open>
  Mock collaborators: the provider selection returns the explicit provider and fails
  without one, and every outbound call succeeds and returns the call itself.
\<close>

definition mockCollaborators :: "call collaborators" where
  "mockCollaborators =
     \<lparr>loadConfig = emptyConfig,
      resolveMessageProviderSelection =
        (\<lambda>cfg explicit. case explicit of
                          Some p \<Rightarrow> Inr p
                        | None \<Rightarrow> Inl (ProviderResolutionFailure ''no provider'')),
      normalizeAccountId = (\<lambda>s. s),
      perform = (\<lambda>c. Inr c)\<rparr>"

definition noOptions :: MessageToolOptions where
  "noOptions = \<lparr>agentAccountId = None, config = None, currentChannelId = None,
      currentThreadTs = None, replyToMode = None, hasRepliedRef = None\<rparr>"

text \<open>Telegram with the given accounts; a disabled account that lists the inline buttons
  capability.\<close>

definition telegramConfig :: "account list \<Rightarrow> ClawdbotConfig" where
  "telegramConfig as = emptyConfig\<lparr>telegram := Some (emptySection\<lparr>sectionAccounts := as\<rparr>)\<rparr>"

definition disabledButtonsAccount :: account where
  "disabledButtonsAccount =
     \<lparr>enabled = False, tokenSource = ''config'', botTokenSource = ''none'',
      actions = None, capabilities = Some [codeUnits ''inlineButtons'']\<rparr>"

section \<open>Properties\<close>

subsection \<open>Membership in the catalog\<close>

lemma mem_add: "x \<in> set (add a s) \<longleftrightarrow> x = a \<or> x \<in> set s"
  by (auto simp: add_def)

lemma mem_fold_add: "x \<in> set (fold add as s) \<longleftrightarrow> x \<in> set as \<or> x \<in> set s"
  by (induction as arbitrary: s) (auto simp: mem_add)

lemma mem_addWhen: "x \<in> set (addWhen blk s) \<longleftrightarrow> x \<in> set s \<or> (fst blk \<and> x \<in> set (snd blk))"
  by (auto simp: addWhen_def mem_fold_add)

lemma mem_fold_addWhen:
  "x \<in> set (fold addWhen blks s) \<longleftrightarrow> x \<in> set s \<or> (\<exists>b \<in> set blks. fst b \<and> x \<in> set (snd b))"
  by (induction blks arbitrary: s) (auto simp: mem_addWhen)

lemma mem_catalog:
  "x \<in> set (buildMessageActionList cfg) \<longleftrightarrow>
     x = ''send'' \<or> (\<exists>b \<in> set (actionBlocks cfg). fst b \<and> x \<in> set (snd b))"
  by (simp add: buildMessageActionList_def mem_fold_addWhen)

lemma fold_addWhen_none:
  "\<forall>b \<in> set blks. \<not> fst b \<Longrightarrow> fold addWhen blks s = s"
  by (induction blks arbitrary: s) (auto simp: addWhen_def)

lemma slackAccountsGrant_iff:
  "slackAccountsGrant sa as key d \<longleftrightarrow>
     (\<exists>a \<in> set as. createActionGate (case actions a of Some g \<Rightarrow> Some g | None \<Rightarrow> sa) key d)"
  by (induction as) auto

lemma discordEnabled_iff:
  "discordEnabled cfg \<longleftrightarrow> (\<exists>a \<in> set (accountsOf (discord cfg)). enabled a \<and> tokenSource a \<noteq> ''none'')"
  by (auto simp: discordEnabled_def discordAccounts_def listEnabledDiscordAccounts_def filter_empty_conv)

lemma telegramEnabled_iff:
  "telegramEnabled cfg \<longleftrightarrow> (\<exists>a \<in> set (accountsOf (telegram cfg)). enabled a \<and> tokenSource a \<noteq> ''none'')"
  by (auto simp: telegramEnabled_def telegramAccounts_def listEnabledTelegramAccounts_def filter_empty_conv)

lemma isSlackActionEnabled_iff:
  "isSlackActionEnabled cfg key d \<longleftrightarrow>
     (\<exists>a \<in> set (accountsOf (slack cfg)). enabled a \<and> botTokenSource a \<noteq> ''none''
        \<and> createActionGate (case actions a of Some g \<Rightarrow> Some g | None \<Rightarrow> actionsOf (slack cfg)) key d)"
  by (auto simp: isSlackActionEnabled_def slackEnabled_def slackAccounts_def
        listEnabledSlackAccounts_def filter_empty_conv slackAccountsGrant_iff)

lemma no_blocks_without_accounts:
  assumes "\<not> discordEnabled cfg" "\<forall>k d. \<not> isSlackActionEnabled cfg k d" "\<not> telegramEnabled cfg"
    "\<not> canWhatsAppReactions cfg" "\<not> canWhatsAppPolls cfg" "\<not> msteamsEnabled cfg"
  shows "\<forall>b \<in> set (actionBlocks cfg). \<not> fst b"
  using assms
  by (simp add: actionBlocks_def canAnyReactions_def canDiscordReactions_def
      canSlackReactions_def canTelegramReactions_def canDiscordMessages_def canSlackMessages_def
      canDiscordPins_def canSlackPins_def canDiscordPolls_def canDiscordRoles_def)

text \<open>
  Claim C4, amended: for every configuration snapshot in which no provider account is
  enabled, MS Teams is not enabled with credentials, and the whatsapp section is absent
  or denies both "reactions" and "polls", \<^verbatim>\<open>buildMessageActionList\<close> returns exactly
  \<^verbatim>\<open>send\<close>.
\<close>

theorem catalog_send_only:
  assumes "noEnabledAccounts cfg"
    and "whatsapp cfg = None \<or>
         (\<not> whatsappGate cfg ''reactions'' True \<and> \<not> whatsappGate cfg ''polls'' True)"
  shows "buildMessageActionList cfg = [''send'']"
proof -
  from assms(1) have d: "\<not> discordEnabled cfg" and t: "\<not> telegramEnabled cfg"
    and s: "\<forall>k d. \<not> isSlackActionEnabled cfg k d" and m: "\<not> msteamsEnabled cfg"
    by (auto simp: noEnabledAccounts_def discordEnabled_iff telegramEnabled_iff
        isSlackActionEnabled_iff list_all_iff)
  from assms(2) have w: "\<not> canWhatsAppReactions cfg" "\<not> canWhatsAppPolls cfg"
    by (auto simp: canWhatsAppReactions_def canWhatsAppPolls_def split: option.splits)
  have "\<forall>b \<in> set (actionBlocks cfg). \<not> fst b"
    by (rule no_blocks_without_accounts [OF d s t w m])
  then show ?thesis
    by (simp add: buildMessageActionList_def fold_addWhen_none)
qed

theorem catalog_send_only_witness:
  "noEnabledAccounts emptyConfig \<and> whatsapp emptyConfig = None
   \<and> buildMessageActionList emptyConfig = [''send'']"
proof -
  have h: "noEnabledAccounts emptyConfig"
    by (simp add: noEnabledAccounts_def emptyConfig_def accountsOf_def msteamsEnabled_def)
  have w: "whatsapp emptyConfig = None" by (simp add: emptyConfig_def)
  show ?thesis using h w catalog_send_only [of emptyConfig] by simp
qed

text \<open>
  Without the condition on whatsapp the catalog is larger: the whatsapp gates are read
  whenever the section is present, whatever the accounts. A configuration with no
  account at all and an empty whatsapp section yields \<^verbatim>\<open>send\<close>, \<^verbatim>\<open>react\<close> and \<^verbatim>\<open>poll\<close>.
\<close>

theorem catalog_whatsapp_section_counterexample:
  "noEnabledAccounts (emptyConfig\<lparr>whatsapp := Some emptySection\<rparr>)
   \<and> buildMessageActionList (emptyConfig\<lparr>whatsapp := Some emptySection\<rparr>)
       = [''send'', ''react'', ''poll'']"
  by (simp add: noEnabledAccounts_def emptyConfig_def emptySection_def accountsOf_def
      msteamsEnabled_def buildMessageActionList_def actionBlocks_def addWhen_def add_def
      canAnyReactions_def canDiscordReactions_def canSlackReactions_def
      canTelegramReactions_def canWhatsAppReactions_def canDiscordMessages_def
      canSlackMessages_def canDiscordPins_def canSlackPins_def canDiscordPolls_def
      canWhatsAppPolls_def canDiscordRoles_def discordEnabled_def discordAccounts_def
      listEnabledDiscordAccounts_def telegramEnabled_def telegramAccounts_def
      listEnabledTelegramAccounts_def isSlackActionEnabled_def slackEnabled_def
      slackAccounts_def listEnabledSlackAccounts_def whatsappGate_def actionsOf_def
      createActionGate_def discordGate_def telegramGate_def)

lemmas cfg_simps = emptyConfig_def emptySection_def tokenAccount_def discordConfig_def
  teamsConfig_def accountsOf_def actionsOf_def createActionGate_def

text \<open>
  Claim C5: \<^verbatim>\<open>poll\<close> is in the catalog if and only if there is an enabled discord account
  with a credential and the discord gate grants "polls", or the whatsapp section is
  present and its gate grants "polls", or MS Teams is not disabled and its credentials
  resolve.
\<close>

theorem poll_membership:
  "''poll'' \<in> set (buildMessageActionList cfg) \<longleftrightarrow>
     ((\<exists>a \<in> set (accountsOf (discord cfg)). enabled a \<and> tokenSource a \<noteq> ''none'')
        \<and> createActionGate (actionsOf (discord cfg)) ''polls'' True)
     \<or> (whatsapp cfg \<noteq> None \<and> createActionGate (actionsOf (whatsapp cfg)) ''polls'' True)
     \<or> (\<exists>m. msteams cfg = Some m \<and> sectionEnabled m \<noteq> Some False \<and> credentialsResolved m)"
proof -
  have "''poll'' \<in> set (buildMessageActionList cfg) \<longleftrightarrow>
      canDiscordPolls cfg \<or> canWhatsAppPolls cfg \<or> msteamsEnabled cfg"
    unfolding mem_catalog actionBlocks_def by simp
  moreover have "canDiscordPolls cfg \<longleftrightarrow>
      ((\<exists>a \<in> set (accountsOf (discord cfg)). enabled a \<and> tokenSource a \<noteq> ''none'')
        \<and> createActionGate (actionsOf (discord cfg)) ''polls'' True)"
    by (simp add: canDiscordPolls_def discordEnabled_iff discordGate_def)
  moreover have "canWhatsAppPolls cfg \<longleftrightarrow>
      (whatsapp cfg \<noteq> None \<and> createActionGate (actionsOf (whatsapp cfg)) ''polls'' True)"
    by (simp add: canWhatsAppPolls_def whatsappGate_def split: option.splits)
  moreover have "msteamsEnabled cfg \<longleftrightarrow>
      (\<exists>m. msteams cfg = Some m \<and> sectionEnabled m \<noteq> Some False \<and> credentialsResolved m)"
    by (simp add: msteamsEnabled_def resolveMSTeamsCredentials_def split: option.splits)
  ultimately show ?thesis by simp
qed

theorem poll_membership_witness:
  "''poll'' \<notin> set (buildMessageActionList emptyConfig)
   \<and> ''poll'' \<in> set (buildMessageActionList (discordConfig (Some [''polls'' \<mapsto> True])))
   \<and> ''poll'' \<in> set (buildMessageActionList teamsConfig)"
  using poll_membership [of emptyConfig]
    poll_membership [of "discordConfig (Some [''polls'' \<mapsto> True])"]
    poll_membership [of teamsConfig]
  by (simp add: cfg_simps)

text \<open>
  Claim C6: \<^verbatim>\<open>role-add\<close> and \<^verbatim>\<open>role-remove\<close> are in the catalog exactly when discord is
  enabled and its "roles" gate is explicitly \<^verbatim>\<open>true\<close>; \<^verbatim>\<open>timeout\<close>, \<^verbatim>\<open>kick\<close> and \<^verbatim>\<open>ban\<close>
  exactly when discord is enabled and its "moderation" gate is explicitly \<^verbatim>\<open>true\<close>. An
  absent gate key excludes them.
\<close>

theorem privileged_actions_opt_in:
  "(\<forall>a \<in> {''role-add'', ''role-remove''}.
      a \<in> set (buildMessageActionList cfg) \<longleftrightarrow>
        discordEnabled cfg \<and> gateExplicitlyTrue (actionsOf (discord cfg)) ''roles'')
   \<and> (\<forall>a \<in> {''timeout'', ''kick'', ''ban''}.
      a \<in> set (buildMessageActionList cfg) \<longleftrightarrow>
        discordEnabled cfg \<and> gateExplicitlyTrue (actionsOf (discord cfg)) ''moderation'')"
proof -
  have g: "createActionGate acts key False = gateExplicitlyTrue acts key" for acts key
    by (auto simp: createActionGate_def gateExplicitlyTrue_def split: option.splits)
  show ?thesis
    unfolding mem_catalog actionBlocks_def
    by (simp add: canDiscordRoles_def discordGate_def g)
qed

theorem privileged_actions_opt_in_witness:
  "''role-add'' \<notin> set (buildMessageActionList (discordConfig None))
   \<and> ''ban'' \<notin> set (buildMessageActionList (discordConfig (Some [''roles'' \<mapsto> True])))
   \<and> ''role-add'' \<in> set (buildMessageActionList (discordConfig (Some [''roles'' \<mapsto> True])))
   \<and> ''kick'' \<in> set (buildMessageActionList (discordConfig (Some [''moderation'' \<mapsto> True])))"
  using privileged_actions_opt_in [of "discordConfig None"]
    privileged_actions_opt_in [of "discordConfig (Some [''roles'' \<mapsto> True])"]
    privileged_actions_opt_in [of "discordConfig (Some [''moderation'' \<mapsto> True])"]
  by (simp add: cfg_simps gateExplicitlyTrue_def discordEnabled_iff)

lemma permutedSection_same:
  assumes "permutedSection s t"
  shows "actionsOf t = actionsOf s" "set (accountsOf t) = set (accountsOf s)"
    "(t = None) = (s = None)"
    "(case t of None \<Rightarrow> None | Some m \<Rightarrow> sectionEnabled m)
       = (case s of None \<Rightarrow> None | Some m \<Rightarrow> sectionEnabled m)"
    "(case t of None \<Rightarrow> False | Some m \<Rightarrow> resolveMSTeamsCredentials m)
       = (case s of None \<Rightarrow> False | Some m \<Rightarrow> resolveMSTeamsCredentials m)"
proof -
  show "actionsOf t = actionsOf s"
    using assms by (cases s; cases t) (auto simp: permutedSection_def actionsOf_def)
  show "set (accountsOf t) = set (accountsOf s)"
    using assms by (cases s; cases t) (auto simp: permutedSection_def accountsOf_def dest: mset_eq_setD)
  show "(t = None) = (s = None)"
    using assms by (cases s; cases t) (auto simp: permutedSection_def)
  show "(case t of None \<Rightarrow> None | Some m \<Rightarrow> sectionEnabled m)
       = (case s of None \<Rightarrow> None | Some m \<Rightarrow> sectionEnabled m)"
    using assms by (cases s; cases t) (auto simp: permutedSection_def)
  show "(case t of None \<Rightarrow> False | Some m \<Rightarrow> resolveMSTeamsCredentials m)
       = (case s of None \<Rightarrow> False | Some m \<Rightarrow> resolveMSTeamsCredentials m)"
    using assms
    by (cases s; cases t) (auto simp: permutedSection_def resolveMSTeamsCredentials_def)
qed

lemma permuted_conditions:
  assumes "permutedAccounts cfg cfg'"
  shows "discordEnabled cfg' = discordEnabled cfg" "telegramEnabled cfg' = telegramEnabled cfg"
    "isSlackActionEnabled cfg' = isSlackActionEnabled cfg"
    "discordGate cfg' = discordGate cfg" "telegramGate cfg' = telegramGate cfg"
    "canWhatsAppReactions cfg' = canWhatsAppReactions cfg"
    "canWhatsAppPolls cfg' = canWhatsAppPolls cfg"
    "msteamsEnabled cfg' = msteamsEnabled cfg"
proof -
  from assms have d: "permutedSection (discord cfg) (discord cfg')"
    and s: "permutedSection (slack cfg) (slack cfg')"
    and t: "permutedSection (telegram cfg) (telegram cfg')"
    and w: "permutedSection (whatsapp cfg) (whatsapp cfg')"
    and m: "permutedSection (msteams cfg) (msteams cfg')"
    by (simp_all add: permutedAccounts_def)
  show "discordEnabled cfg' = discordEnabled cfg"
    by (simp add: discordEnabled_iff permutedSection_same(2) [OF d])
  show "telegramEnabled cfg' = telegramEnabled cfg"
    by (simp add: telegramEnabled_iff permutedSection_same(2) [OF t])
  show "isSlackActionEnabled cfg' = isSlackActionEnabled cfg"
    by (intro ext)
      (simp add: isSlackActionEnabled_iff permutedSection_same(1,2) [OF s]
        cong: option.case_cong)
  show "discordGate cfg' = discordGate cfg"
    by (simp add: discordGate_def permutedSection_same(1) [OF d])
  show "telegramGate cfg' = telegramGate cfg"
    by (simp add: telegramGate_def permutedSection_same(1) [OF t])
  have wn: "(whatsapp cfg' = None) = (whatsapp cfg = None)"
    by (rule permutedSection_same(3) [OF w])
  have wg: "whatsappGate cfg' = whatsappGate cfg"
    by (simp add: whatsappGate_def permutedSection_same(1) [OF w])
  show "canWhatsAppReactions cfg' = canWhatsAppReactions cfg"
    using wn by (auto simp: canWhatsAppReactions_def wg split: option.splits)
  show "canWhatsAppPolls cfg' = canWhatsAppPolls cfg"
    using wn by (auto simp: canWhatsAppPolls_def wg split: option.splits)
  show "msteamsEnabled cfg' = msteamsEnabled cfg"
    unfolding msteamsEnabled_def
    by (simp only: permutedSection_same(4,5) [OF m])
qed

text \<open>
  Claim C8: permuting the account lists of the provider sections does not change the
  action catalog.
\<close>

theorem catalog_order_independent:
  assumes "permutedAccounts cfg cfg'"
  shows "buildMessageActionList cfg' = buildMessageActionList cfg"
proof -
  note c = permuted_conditions [OF assms]
  have "actionBlocks cfg' = actionBlocks cfg"
    by (simp add: actionBlocks_def canAnyReactions_def canDiscordReactions_def
      canSlackReactions_def canTelegramReactions_def canDiscordMessages_def canSlackMessages_def
      canDiscordPins_def canSlackPins_def canDiscordPolls_def canDiscordRoles_def c)
  then show ?thesis by (simp add: buildMessageActionList_def)
qed

theorem catalog_order_independent_witness:
  "permutedAccounts (slackConfig [denyingAccount, tokenAccount])
     (slackConfig [tokenAccount, denyingAccount])
   \<and> buildMessageActionList (slackConfig [tokenAccount, denyingAccount])
     = buildMessageActionList (slackConfig [denyingAccount, tokenAccount])"
proof -
  have h: "permutedAccounts (slackConfig [denyingAccount, tokenAccount])
     (slackConfig [tokenAccount, denyingAccount])"
    by (simp add: permutedAccounts_def permutedSection_def slackConfig_def emptyConfig_def
        emptySection_def)
  show ?thesis using h catalog_order_independent [OF h] by simp
qed

text \<open>
  Claim C9: the catalog contains \<^verbatim>\<open>send\<close>, and it is a function of the configuration:
  identical configurations yield identical catalogs.
\<close>

theorem catalog_contains_send:
  "''send'' \<in> set (buildMessageActionList cfg)
   \<and> (cfg' = cfg \<longrightarrow> set (buildMessageActionList cfg') = set (buildMessageActionList cfg))"
  by (simp add: mem_catalog)

theorem catalog_contains_send_witness:
  "''send'' \<in> set (buildMessageActionList teamsConfig)
   \<and> set (buildMessageActionList teamsConfig) = set (buildMessageActionList teamsConfig)"
  using catalog_contains_send [of teamsConfig teamsConfig] by simp

subsection \<open>Sequencing, extractor and branches of the dispatcher\<close>

lemma calls_append: "calls (xs @ ys) = calls xs @ calls ys"
  by (induction xs rule: calls.induct) auto

lemma andThen_alt:
  "andThen m f =
     (case snd m of Inl e \<Rightarrow> (fst m, Inl e) | Inr a \<Rightarrow> (fst m @ fst (f a), snd (f a)))"
  by (simp add: andThen_def split: prod.splits sum.splits)

lemma andThen_eval:
  "andThen (t, Inl e) f = (t, Inl e)"
  "andThen (t, Inr a) f = (case f a of (t', r) \<Rightarrow> (t @ t', r))"
  by (simp_all add: andThen_def)

lemma outcome_andThen:
  "calls (fst m) = [] \<Longrightarrow>
     outcome (andThen m f) = (case snd m of Inl e \<Rightarrow> ([], Inl e) | Inr a \<Rightarrow> outcome (f a))"
  by (simp add: andThen_alt outcome_def calls_append split: sum.splits)

lemma missing_error: "missing key opts = Inl e \<Longrightarrow> isExtractionError e"
  by (auto simp: missing_def isExtractionError_def split: if_splits)

lemma readStringParam_error: "readStringParam params key opts = Inl e \<Longrightarrow> isExtractionError e"
  by (auto simp: readStringParam_def Let_def isExtractionError_def
      split: jsvalue.splits if_splits dest: missing_error)

lemma readNumberParam_error: "readNumberParam params key opts = Inl e \<Longrightarrow> isExtractionError e"
  by (auto simp: readNumberParam_def isExtractionError_def
      split: jsvalue.splits dest: missing_error)

lemma readStringArrayParam_error:
  "readStringArrayParam params key opts = Inl e \<Longrightarrow> isExtractionError e"
  by (auto simp: readStringArrayParam_def isExtractionError_def
      split: jsvalue.splits option.splits dest: missing_error)

lemma reader_calls [simp]:
  "calls (fst (readString params key opts)) = []"
  "calls (fst (readStringReq params key opts)) = []"
  "calls (fst (readNumber params key opts)) = []"
  "calls (fst (readStringArray params key opts)) = []"
  "calls (fst (ret x)) = []"
  "calls (fst (throw e)) = []"
  by (simp_all add: readString_def readStringReq_def readNumber_def readStringArray_def
      ret_def throw_def)

lemma reader_errors:
  "snd (readString params key opts) = Inl e \<Longrightarrow> isExtractionError e"
  "snd (readStringReq params key opts) = Inl e \<Longrightarrow> isExtractionError e"
  "snd (readNumber params key opts) = Inl e \<Longrightarrow> isExtractionError e"
  "snd (readStringArray params key opts) = Inl e \<Longrightarrow> isExtractionError e"
     apply (simp add: readString_def readStringParam_error)
    apply (auto simp: readStringReq_def isExtractionError_def
      split: sum.splits option.splits dest: readStringParam_error)[1]
   apply (simp add: readNumber_def readNumberParam_error)
  apply (simp add: readStringArray_def readStringArrayParam_error)
  done


lemma resolveChatId_calls [simp]: "calls (fst (resolveChatId params lbl)) = []"
  by (simp add: resolveChatId_def andThen_alt calls_append readString_def readStringReq_def
      ret_def split: sum.splits option.splits)

lemma resolveChannelId_error:
  "snd (resolveChannelId params lbl) = Inl e \<Longrightarrow> isExtractionError e"
  by (auto simp: resolveChannelId_def andThen_alt ret_def readString_def
      split: sum.splits option.splits dest: reader_errors readStringParam_error)

lemma resolveChatId_error:
  "snd (resolveChatId params lbl) = Inl e \<Longrightarrow> isExtractionError e"
  by (auto simp: resolveChatId_def andThen_alt ret_def readString_def
      split: sum.splits option.splits dest: reader_errors readStringParam_error)

lemmas extraction_errors = reader_errors resolveChannelId_error resolveChatId_error





lemma andThen_error:
  "snd (andThen m f) = Inl e \<Longrightarrow> snd m = Inl e \<or> (\<exists>a. snd m = Inr a \<and> snd (f a) = Inl e)"
  by (auto simp: andThen_alt split: sum.splits)






lemma optional_read_error:
  "snd (if c then ret None else andThen (readStringReq params key opts)
      (\<lambda>m. ret (Some m))) = Inl e \<Longrightarrow> isExtractionError e"
  by (cases c) (auto simp: ret_def dest!: andThen_error dest: reader_errors)




lemma dispatch_route:
  "dispatch env options cfg params ''send'' provider accountId gateway dryRun
     = execute_send env options cfg params provider accountId gateway dryRun"
  "dispatch env options cfg params ''poll'' provider accountId gateway dryRun
     = execute_poll env cfg params provider gateway dryRun"
  "dispatch env options cfg params ''react'' provider accountId gateway dryRun
     = execute_react env cfg params ''react'' provider accountId"
  "dispatch env options cfg params ''reactions'' provider accountId gateway dryRun
     = execute_reactions env cfg params ''reactions'' provider accountId"
  "dispatch env options cfg params ''read'' provider accountId gateway dryRun
     = execute_read env cfg params ''read'' provider accountId"
  "dispatch env options cfg params ''edit'' provider accountId gateway dryRun
     = execute_edit env cfg params ''edit'' provider accountId"
  "dispatch env options cfg params ''delete'' provider accountId gateway dryRun
     = execute_delete env cfg params ''delete'' provider accountId"
  "dispatch env options cfg params ''pin'' provider accountId gateway dryRun
     = execute_pins env cfg params ''pin'' provider accountId"
  "dispatch env options cfg params ''unpin'' provider accountId gateway dryRun
     = execute_pins env cfg params ''unpin'' provider accountId"
  "dispatch env options cfg params ''list-pins'' provider accountId gateway dryRun
     = execute_pins env cfg params ''list-pins'' provider accountId"
  "dispatch env options cfg params ''permissions'' provider accountId gateway dryRun
     = execute_permissions env cfg params ''permissions'' provider"
  "dispatch env options cfg params ''thread-create'' provider accountId gateway dryRun
     = execute_thread_create env cfg params ''thread-create'' provider"
  "dispatch env options cfg params ''thread-list'' provider accountId gateway dryRun
     = execute_thread_list env cfg params ''thread-list'' provider"
  "dispatch env options cfg params ''thread-reply'' provider accountId gateway dryRun
     = execute_thread_reply env cfg params ''thread-reply'' provider"
  "dispatch env options cfg params ''search'' provider accountId gateway dryRun
     = execute_search env cfg params ''search'' provider"
  "dispatch env options cfg params ''sticker'' provider accountId gateway dryRun
     = execute_sticker env cfg params ''sticker'' provider"
  "dispatch env options cfg params ''member-info'' provider accountId gateway dryRun
     = execute_member_info env cfg params ''member-info'' provider accountId"
  "dispatch env options cfg params ''role-info'' provider accountId gateway dryRun
     = execute_role_info env cfg params ''role-info'' provider"
  "dispatch env options cfg params ''emoji-list'' provider accountId gateway dryRun
     = execute_emoji_list env cfg params ''emoji-list'' provider accountId"
  "dispatch env options cfg params ''emoji-upload'' provider accountId gateway dryRun
     = execute_emoji_upload env cfg params ''emoji-upload'' provider"
  "dispatch env options cfg params ''sticker-upload'' provider accountId gateway dryRun
     = execute_sticker_upload env cfg params ''sticker-upload'' provider"
  "dispatch env options cfg params ''role-add'' provider accountId gateway dryRun
     = execute_role_change env cfg params ''role-add'' provider"
  "dispatch env options cfg params ''role-remove'' provider accountId gateway dryRun
     = execute_role_change env cfg params ''role-remove'' provider"
  "dispatch env options cfg params ''channel-info'' provider accountId gateway dryRun
     = execute_channel_info env cfg params ''channel-info'' provider"
  "dispatch env options cfg params ''channel-list'' provider accountId gateway dryRun
     = execute_channel_list env cfg params ''channel-list'' provider"
  "dispatch env options cfg params ''voice-status'' provider accountId gateway dryRun
     = execute_voice_status env cfg params ''voice-status'' provider"
  "dispatch env options cfg params ''event-list'' provider accountId gateway dryRun
     = execute_event_list env cfg params ''event-list'' provider"
  "dispatch env options cfg params ''event-create'' provider accountId gateway dryRun
     = execute_event_create env cfg params ''event-create'' provider"
  "dispatch env options cfg params ''timeout'' provider accountId gateway dryRun
     = execute_moderation env cfg params ''timeout'' provider"
  "dispatch env options cfg params ''kick'' provider accountId gateway dryRun
     = execute_moderation env cfg params ''kick'' provider"
  "dispatch env options cfg params ''ban'' provider accountId gateway dryRun
     = execute_moderation env cfg params ''ban'' provider"
  by (simp_all add: dispatch_def)



lemma dispatch_unknown:
  assumes "action \<notin> set AllMessageActions"
  shows "dispatch env options cfg params action provider accountId gateway dryRun
    = throw (UnknownAction action)"
  using assms by (simp add: dispatch_def AllMessageActions_def)

lemma prelude_trace:
  assumes "prelude env options cfg params = (t, Inr x)"
  shows "\<exists>explicit. t = [Extract ''action'', Extract ''provider'', ResolveProvider explicit,
     Extract ''accountId'', Extract ''gatewayUrl'', Extract ''gatewayToken'',
     Extract ''timeoutMs'']"
  using assms
  by (auto simp: prelude_def andThen_alt Let_def readString_def readStringReq_def
      readNumber_def resolveProvider_def ret_def split: sum.splits option.splits)

lemma execute_after_prelude:
  assumes "prelude env options (effectiveConfig env options) params
    = (t, Inr (action, provider, accountId, gateway, dryRun))"
  shows "execute env options params =
    (t @ fst (dispatch env options (effectiveConfig env options) params action provider
                accountId gateway dryRun),
     snd (dispatch env options (effectiveConfig env options) params action provider
                accountId gateway dryRun))"
  using assms by (simp add: execute_def Let_def andThen_alt)

lemma outcome_execute:
  assumes "prelude env options (effectiveConfig env options) params
    = (t, Inr (action, provider, accountId, gateway, dryRun))"
  shows "outcome (execute env options params)
    = outcome (dispatch env options (effectiveConfig env options) params action provider
        accountId gateway dryRun)"
proof -
  from prelude_trace [OF assms] have "calls t = []" by auto
  then show ?thesis
    by (simp add: execute_after_prelude [OF assms] outcome_def calls_append)
qed

lemma generic_andThen:
  assumes "calls (fst m) = []" "\<And>v. genericDispatch a d (outcome (f v))"
  shows "genericDispatch a d (outcome (andThen m f))"
proof (cases "snd m")
  case (Inl e)
  then show ?thesis using assms(1) by (simp add: outcome_andThen genericDispatch_def)
next
  case (Inr v)
  then show ?thesis using assms by (simp add: outcome_andThen)
qed

lemma generic_sendMessage:
  "getField req ''dryRun'' = JBool d \<Longrightarrow>
     genericDispatch ''send'' d (outcome (returnJson (invoke env (SendMessage req))))"
  by (simp add: genericDispatch_def outcome_def returnJson_def invoke_def andThen_alt ret_def
      isProviderHandler_def split: sum.splits)

lemma generic_sendPoll:
  "getField req ''dryRun'' = JBool d \<Longrightarrow>
     genericDispatch ''poll'' d (outcome (returnJson (invoke env (SendPoll req))))"
  by (simp add: genericDispatch_def outcome_def returnJson_def invoke_def andThen_alt ret_def
      isProviderHandler_def split: sum.splits)

lemma send_dry_run:
  "genericDispatch ''send'' True
     (outcome (execute_send env options cfg params provider accountId gateway True))"
  unfolding execute_send_def Let_def
  by (intro generic_andThen) (simp_all add: generic_sendMessage getField_def getProp_def)

lemma poll_dry_run:
  "genericDispatch ''poll'' True (outcome (execute_poll env cfg params provider gateway True))"
  unfolding execute_poll_def Let_def
  by (intro generic_andThen) (simp_all add: generic_sendPoll getField_def getProp_def)



lemmas eval_defs = prelude_def andThen_eval readStringReq_def readString_def readNumber_def
  readStringArray_def readStringParam_def readNumberParam_def readStringArrayParam_def
  getProp_def defaults_def missing_def trimChars_def isWhiteSpace_def resolveProvider_def
  mockCollaborators_def noOptions_def resolveAgentAccountId_def ret_def throw_def truthy_def
  Let_def ostr_def onum_def obool_def ostrs_def effectiveConfig_def invoke_def returnJson_def
  returnAwait_def booleanParam_def orUndefined_def resolveChannelId_def resolveChatId_def
  preludeTrace_def noGateway_def

text \<open>
  Claim C1, amended: for the actions \<^verbatim>\<open>send\<close> and \<^verbatim>\<open>poll\<close> and every resolved provider,
  executing with a truthy \<^verbatim>\<open>dryRun\<close> calls no provider-specific handler; when it
  succeeds it has made exactly one call, of \<^verbatim>\<open>sendMessage\<close> (of \<^verbatim>\<open>sendPoll\<close> for
  \<^verbatim>\<open>poll\<close>), with \<^verbatim>\<open>dryRun\<close> set in the request.
\<close>

theorem dry_run_send_poll_generic_only:
  assumes "prelude env options (effectiveConfig env options) params
             = (t, Inr (action, provider, accountId, gateway, True))"
    and "action = ''send'' \<or> action = ''poll''"
  shows "list_all (\<lambda>c. \<not> isProviderHandler c) (calls (fst (execute env options params)))
     \<and> (\<forall>r. snd (execute env options params) = Inr r \<longrightarrow>
           (\<exists>req. calls (fst (execute env options params))
                    = [if action = ''send'' then SendMessage req else SendPoll req]
                  \<and> getField req ''dryRun'' = JBool True))"
proof -
  have "genericDispatch action True
      (outcome (dispatch env options (effectiveConfig env options) params action provider
         accountId gateway True))"
    using assms(2) by (auto simp: dispatch_route send_dry_run poll_dry_run)
  then have "genericDispatch action True (outcome (execute env options params))"
    by (simp add: outcome_execute [OF assms(1)])
  then show ?thesis
    by (simp add: genericDispatch_def outcome_def)
qed

theorem dry_run_send_poll_generic_only_witness:
  "calls (fst (execute mockCollaborators noOptions
      [(''action'', JStr ''send''), (''provider'', JStr ''discord''), (''dryRun'', JBool True),
       (''to'', JStr ''general''), (''message'', JStr ''hello'')]))
   = [SendMessage (JObj [(''to'', JStr ''general''), (''content'', JStr ''hello''),
        (''mediaUrl'', JUndefined), (''provider'', JStr ''discord''),
        (''accountId'', JUndefined), (''gifPlayback'', JBool False), (''dryRun'', JBool True),
        (''bestEffort'', JUndefined), (''gateway'', noGateway)])]"
proof -
  let ?params = "[(''action'', JStr ''send''), (''provider'', JStr ''discord''),
       (''dryRun'', JBool True), (''to'', JStr ''general''), (''message'', JStr ''hello'')]"
  have pre: "prelude mockCollaborators noOptions (effectiveConfig mockCollaborators noOptions)
      ?params = (preludeTrace (Some ''discord''),
                 Inr (''send'', ''discord'', None, noGateway, True))"
    by (simp add: eval_defs)
  have act: "''send'' = ''send'' \<or> ''send'' = ''poll''" by simp
  have ok: "snd (execute mockCollaborators noOptions ?params)
      = Inr (jsonResult (SendMessage (JObj [(''to'', JStr ''general''),
        (''content'', JStr ''hello''),
        (''mediaUrl'', JUndefined), (''provider'', JStr ''discord''),
        (''accountId'', JUndefined), (''gifPlayback'', JBool False), (''dryRun'', JBool True),
        (''bestEffort'', JUndefined), (''gateway'', noGateway)])))"
    by (simp add: execute_def dispatch_route execute_send_def eval_defs)
  from dry_run_send_poll_generic_only [OF pre act] ok
  obtain req where "calls (fst (execute mockCollaborators noOptions ?params)) = [SendMessage req]"
    by auto
  moreover have "calls (fst (execute mockCollaborators noOptions ?params))
      = [SendMessage (JObj [(''to'', JStr ''general''), (''content'', JStr ''hello''),
        (''mediaUrl'', JUndefined), (''provider'', JStr ''discord''),
        (''accountId'', JUndefined), (''gifPlayback'', JBool False), (''dryRun'', JBool True),
        (''bestEffort'', JUndefined), (''gateway'', noGateway)])]"
    by (simp add: execute_def dispatch_route execute_send_def eval_defs)
  ultimately show ?thesis by simp
qed

text \<open>
  The other actions do not consult \<^verbatim>\<open>dryRun\<close>: \<^verbatim>\<open>react\<close> is in the catalog of a
  configuration with an enabled discord account, and a dry-run \<^verbatim>\<open>react\<close> resolved to
  discord calls the discord handler.
\<close>

theorem dry_run_react_counterexample:
  "''react'' \<in> set (buildMessageActionList (discordConfig None))
   \<and> truthy (getProp [(''action'', JStr ''react''), (''provider'', JStr ''discord''),
        (''dryRun'', JBool True), (''messageId'', JStr ''42''), (''to'', JStr ''general'')]
        ''dryRun'')
   \<and> calls (fst (execute mockCollaborators (noOptions\<lparr>config := Some (discordConfig None)\<rparr>)
      [(''action'', JStr ''react''), (''provider'', JStr ''discord''), (''dryRun'', JBool True),
       (''messageId'', JStr ''42''), (''to'', JStr ''general'')]))
   = [HandleDiscordAction
        (JObj [(''action'', JStr ''react''), (''channelId'', JStr ''general''),
               (''messageId'', JStr ''42''), (''emoji'', JUndefined), (''remove'', JUndefined)])
        (discordConfig None)]"
  by (simp add: mem_catalog actionBlocks_def canAnyReactions_def canDiscordReactions_def
      discordEnabled_iff discordGate_def cfg_simps
      execute_def dispatch_route execute_react_def eval_defs)

subsection \<open>The provider sets are exact\<close>

text \<open>
  For a provider inside the set of an action the router raises no failure of its own:
  whatever fails is an extractor error or the error of the outbound call.
\<close>

lemma accepted_andThen:
  assumes "\<And>e. snd m = Inl e \<Longrightarrow> isExtractionError e" "\<And>v. accepted env (f v)"
  shows "accepted env (andThen m f)"
  using assms by (auto simp: accepted_def andThen_alt split: sum.splits)

lemma accepted_invoke: "accepted env (returnAwait (invoke env c))"
  by (auto simp: accepted_def returnAwait_def invoke_def andThen_alt ret_def split: sum.splits)

lemmas accepted_intros = accepted_andThen accepted_invoke

lemma react_accepted:
  assumes "provider \<in> set [''discord'', ''slack'', ''telegram'', ''whatsapp'']"
  shows "accepted env (execute_react env cfg params action provider accountId)"
  using assms
  apply (simp only: set_simps insert_iff empty_iff)
  apply (elim disjE FalseE; simp add: execute_react_def Let_def;
      intro accepted_intros; erule extraction_errors)
  done

lemma reactions_accepted:
  assumes "provider \<in> set [''discord'', ''slack'']"
  shows "accepted env (execute_reactions env cfg params action provider accountId)"
  using assms
  apply (simp only: set_simps insert_iff empty_iff)
  apply (elim disjE FalseE; simp add: execute_reactions_def Let_def;
      intro accepted_intros; erule extraction_errors)
  done

lemma read_accepted:
  assumes "provider \<in> set [''discord'', ''slack'']"
  shows "accepted env (execute_read env cfg params action provider accountId)"
  using assms
  apply (simp only: set_simps insert_iff empty_iff)
  apply (elim disjE FalseE; simp add: execute_read_def Let_def;
      intro accepted_intros; erule extraction_errors)
  done

lemma edit_accepted:
  assumes "provider \<in> set [''discord'', ''slack'']"
  shows "accepted env (execute_edit env cfg params action provider accountId)"
  using assms
  apply (simp only: set_simps insert_iff empty_iff)
  apply (elim disjE FalseE; simp add: execute_edit_def Let_def;
      intro accepted_intros; erule extraction_errors)
  done

lemma delete_accepted:
  assumes "provider \<in> set [''discord'', ''slack'']"
  shows "accepted env (execute_delete env cfg params action provider accountId)"
  using assms
  apply (simp only: set_simps insert_iff empty_iff)
  apply (elim disjE FalseE; simp add: execute_delete_def Let_def;
      intro accepted_intros; erule extraction_errors)
  done

lemma pins_accepted:
  assumes "provider \<in> set [''discord'', ''slack'']"
  shows "accepted env (execute_pins env cfg params action provider accountId)"
  unfolding execute_pins_def
  apply (rule accepted_andThen)
   apply (erule optional_read_error)
  apply (rule accepted_andThen)
   apply (erule resolveChannelId_error)
  using assms apply (auto simp: Let_def accepted_invoke)
  done

lemma member_info_accepted:
  assumes "provider \<in> set [''discord'', ''slack'']"
  shows "accepted env (execute_member_info env cfg params action provider accountId)"
  using assms
  apply (simp only: set_simps insert_iff empty_iff)
  apply (elim disjE FalseE; simp add: execute_member_info_def Let_def;
      intro accepted_intros; erule extraction_errors)
  done

lemma emoji_list_accepted:
  assumes "provider \<in> set [''discord'', ''slack'']"
  shows "accepted env (execute_emoji_list env cfg params action provider accountId)"
  using assms
  apply (simp only: set_simps insert_iff empty_iff)
  apply (elim disjE FalseE; simp add: execute_emoji_list_def Let_def;
      intro accepted_intros; erule extraction_errors)
  done

lemma permissions_accepted:
  "accepted env (execute_permissions env cfg params action ''discord'')"
  unfolding execute_permissions_def Let_def
  by (simp only: simp_thms if_False; intro accepted_intros; erule extraction_errors)

lemma thread_create_accepted:
  "accepted env (execute_thread_create env cfg params action ''discord'')"
  unfolding execute_thread_create_def Let_def
  by (simp only: simp_thms if_False; intro accepted_intros; erule extraction_errors)

lemma thread_list_accepted:
  "accepted env (execute_thread_list env cfg params action ''discord'')"
  unfolding execute_thread_list_def Let_def
  by (simp only: simp_thms if_False; intro accepted_intros; erule extraction_errors)

lemma thread_reply_accepted:
  "accepted env (execute_thread_reply env cfg params action ''discord'')"
  unfolding execute_thread_reply_def Let_def
  by (simp only: simp_thms if_False; intro accepted_intros; erule extraction_errors)

lemma search_accepted:
  "accepted env (execute_search env cfg params action ''discord'')"
  unfolding execute_search_def Let_def
  by (simp only: simp_thms if_False; intro accepted_intros; erule extraction_errors)

lemma sticker_accepted:
  "accepted env (execute_sticker env cfg params action ''discord'')"
  unfolding execute_sticker_def Let_def
  by (simp only: simp_thms if_False; intro accepted_intros; erule extraction_errors)

lemma role_info_accepted:
  "accepted env (execute_role_info env cfg params action ''discord'')"
  unfolding execute_role_info_def Let_def
  by (simp only: simp_thms if_False; intro accepted_intros; erule extraction_errors)

lemma emoji_upload_accepted:
  "accepted env (execute_emoji_upload env cfg params action ''discord'')"
  unfolding execute_emoji_upload_def Let_def
  by (simp only: simp_thms if_False; intro accepted_intros; erule extraction_errors)

lemma sticker_upload_accepted:
  "accepted env (execute_sticker_upload env cfg params action ''discord'')"
  unfolding execute_sticker_upload_def Let_def
  by (simp only: simp_thms if_False; intro accepted_intros; erule extraction_errors)

lemma role_change_accepted:
  "accepted env (execute_role_change env cfg params action ''discord'')"
  unfolding execute_role_change_def Let_def
  by (simp only: simp_thms if_False; intro accepted_intros; erule extraction_errors)

lemma channel_info_accepted:
  "accepted env (execute_channel_info env cfg params action ''discord'')"
  unfolding execute_channel_info_def Let_def
  by (simp only: simp_thms if_False; intro accepted_intros; erule extraction_errors)

lemma channel_list_accepted:
  "accepted env (execute_channel_list env cfg params action ''discord'')"
  unfolding execute_channel_list_def Let_def
  by (simp only: simp_thms if_False; intro accepted_intros; erule extraction_errors)

lemma voice_status_accepted:
  "accepted env (execute_voice_status env cfg params action ''discord'')"
  unfolding execute_voice_status_def Let_def
  by (simp only: simp_thms if_False; intro accepted_intros; erule extraction_errors)

lemma event_list_accepted:
  "accepted env (execute_event_list env cfg params action ''discord'')"
  unfolding execute_event_list_def Let_def
  by (simp only: simp_thms if_False; intro accepted_intros; erule extraction_errors)

lemma event_create_accepted:
  "accepted env (execute_event_create env cfg params action ''discord'')"
  unfolding execute_event_create_def Let_def
  by (simp only: simp_thms if_False; intro accepted_intros; erule extraction_errors)

lemma moderation_accepted:
  "accepted env (execute_moderation env cfg params action ''discord'')"
  unfolding execute_moderation_def Let_def
  by (simp only: simp_thms if_False; intro accepted_intros; erule extraction_errors)

lemmas checked_first_accepted =
  permissions_accepted thread_create_accepted thread_list_accepted thread_reply_accepted
  search_accepted sticker_accepted role_info_accepted emoji_upload_accepted
  sticker_upload_accepted role_change_accepted channel_info_accepted channel_list_accepted
  voice_status_accepted event_list_accepted event_create_accepted moderation_accepted

lemma checked_first_dispatch_accepted:
  assumes "allowedProviders action = Some ps" "provider \<in> set ps"
    "action \<in> set providerCheckedFirst"
  shows "accepted env (dispatch env options cfg params action provider accountId gateway dryRun)"
  using assms unfolding providerCheckedFirst_def
  apply (simp only: set_simps insert_iff empty_iff)
  apply (elim disjE FalseE;
      clarsimp simp: dispatch_route allowedProviders_def AllMessageActions_def
        checked_first_accepted emoji_list_accepted)
  done

lemma read_first_actions:
  assumes "allowedProviders action = Some ps" "action \<notin> set providerCheckedFirst"
  shows "action \<in> set [''react'', ''reactions'', ''read'', ''edit'', ''delete'',
      ''pin'', ''unpin'', ''list-pins'', ''member-info'']"
  using assms
  by (auto simp: allowedProviders_def AllMessageActions_def providerCheckedFirst_def
      split: if_splits)

lemma read_first_dispatch_accepted:
  assumes "allowedProviders action = Some ps" "provider \<in> set ps"
    "action \<in> set [''react'', ''reactions'', ''read'', ''edit'', ''delete'',
      ''pin'', ''unpin'', ''list-pins'', ''member-info'']"
  shows "accepted env (dispatch env options cfg params action provider accountId gateway dryRun)"
  using assms
  apply (simp only: set_simps insert_iff empty_iff)
  apply (elim disjE FalseE;
      clarsimp simp: dispatch_route allowedProviders_def react_accepted reactions_accepted
        read_accepted edit_accepted delete_accepted pins_accepted member_info_accepted)
  done

lemma allowedProviders_tight:
  assumes "allowedProviders action = Some ps" "provider \<in> set ps"
  shows "accepted env (dispatch env options cfg params action provider accountId gateway dryRun)"
proof (cases "action \<in> set providerCheckedFirst")
  case True
  then show ?thesis by (rule checked_first_dispatch_accepted [OF assms])
next
  case False
  show ?thesis
    by (rule read_first_dispatch_accepted [OF assms read_first_actions [OF assms(1) False]])
qed

subsection \<open>The router\<close>




text \<open>
  Claim C3, amended: for every request whose action is not one of the known actions, the
  provider resolution and the common reads come first; when they succeed \<^verbatim>\<open>execute\<close>
  fails with \<open>UnknownAction\<close> of that name, having resolved the provider once and
  made no outbound call.
\<close>

theorem unknown_action_after_resolution:
  assumes "prelude env options (effectiveConfig env options) params
             = (t, Inr (action, provider, accountId, gateway, dryRun))"
    and "action \<notin> set AllMessageActions"
  shows "execute env options params = (t, Inl (UnknownAction action))
     \<and> calls t = [] \<and> length (resolutions t) = 1"
proof -
  have "execute env options params = (t, Inl (UnknownAction action))"
    by (simp add: execute_after_prelude [OF assms(1)] dispatch_unknown [OF assms(2)] throw_def)
  moreover from prelude_trace [OF assms(1)] have "calls t = []" "length (resolutions t) = 1"
    by auto
  ultimately show ?thesis by simp
qed

theorem unknown_action_after_resolution_witness:
  "execute mockCollaborators noOptions
      [(''action'', JStr ''frobnicate''), (''provider'', JStr ''slack'')]
   = (preludeTrace (Some ''slack''), Inl (UnknownAction ''frobnicate''))"
proof -
  have pre: "prelude mockCollaborators noOptions (effectiveConfig mockCollaborators noOptions)
      [(''action'', JStr ''frobnicate''), (''provider'', JStr ''slack'')]
    = (preludeTrace (Some ''slack''), Inr (''frobnicate'', ''slack'', None, noGateway, False))"
    by (simp add: eval_defs)
  have un: "''frobnicate'' \<notin> set AllMessageActions"
    by (simp add: AllMessageActions_def)
  from unknown_action_after_resolution [OF pre un] show ?thesis by simp
qed

text \<open>
  An unknown action with no explicit provider fails in the provider resolution, not
  with \<open>UnknownAction\<close>; with an explicit provider the resolution is in the trace of the
  failed call.
\<close>

theorem unknown_action_resolves_provider_first_counterexample:
  "''frobnicate'' \<notin> set AllMessageActions
   \<and> execute mockCollaborators noOptions [(''action'', JStr ''frobnicate'')]
      = ([Extract ''action'', Extract ''provider'', ResolveProvider None],
         Inl (ProviderResolutionFailure ''no provider''))
   \<and> resolutions (fst (execute mockCollaborators noOptions
        [(''action'', JStr ''frobnicate''), (''provider'', JStr ''slack'')]))
      = [Some ''slack'']"
  by (simp add: AllMessageActions_def execute_def dispatch_def eval_defs)



subsection \<open>The schema\<close>

lemma mem_addCapabilities:
  "x \<in> set (addCapabilities es caps) \<longleftrightarrow>
     x \<in> set caps \<or> (\<exists>e \<in> set es. String_trim e \<noteq> [] \<and> toLowerCase (String_trim e) = x)"
  unfolding addCapabilities_def
  by (induction es arbitrary: caps) (auto simp: Let_def mem_add)

lemma inlinebuttons_addCapabilities:
  "codeUnits ''inlinebuttons'' \<in> set (addCapabilities es caps) \<longleftrightarrow>
     codeUnits ''inlinebuttons'' \<in> set caps \<or> listsInlineButtons (Some es)"
proof -
  have "s \<noteq> []" if "toLowerCase s = codeUnits ''inlinebuttons''" for s
    using that by (auto simp: toLowerCase_def codeUnits_def)
  then show ?thesis
    by (auto simp: mem_addCapabilities listsInlineButtons_def list_ex_iff)
qed

lemma inlinebuttons_fold_accounts:
  "codeUnits ''inlinebuttons'' \<in> set (fold (\<lambda>account cs. case capabilities account of
         None \<Rightarrow> cs | Some accountCaps \<Rightarrow> addCapabilities accountCaps cs) as caps) \<longleftrightarrow>
     codeUnits ''inlinebuttons'' \<in> set caps
     \<or> (\<exists>a \<in> set as. listsInlineButtons (capabilities a))"
proof (induction as arbitrary: caps)
  case Nil
  then show ?case by simp
next
  case (Cons a as)
  show ?case
  proof (cases "capabilities a")
    case None
    then show ?thesis by (simp add: Cons.IH listsInlineButtons_def)
  next
    case (Some es)
    then show ?thesis by (auto simp: Cons.IH inlinebuttons_addCapabilities)
  qed
qed

lemma hasTelegramInlineButtons_iff:
  "hasTelegramInlineButtons cfg \<longleftrightarrow>
     listsInlineButtons (case telegram cfg of None \<Rightarrow> None | Some t \<Rightarrow> sectionCapabilities t)
     \<or> (\<exists>a \<in> set (accountsOf (telegram cfg)). listsInlineButtons (capabilities a))"
proof -
  have "codeUnits ''inlinebuttons'' \<in> set (addCapabilities
      (case telegram cfg of None \<Rightarrow> []
       | Some t \<Rightarrow> (case sectionCapabilities t of None \<Rightarrow> [] | Some es \<Rightarrow> es)) []) \<longleftrightarrow>
     listsInlineButtons (case telegram cfg of None \<Rightarrow> None | Some t \<Rightarrow> sectionCapabilities t)"
    by (auto simp: inlinebuttons_addCapabilities listsInlineButtons_def split: option.splits)
  then show ?thesis
    by (simp add: hasTelegramInlineButtons_def Let_def inlinebuttons_fold_accounts)
qed

lemma props_buttons:
  "''buttons'' \<in> set (map fst (if \<not> inc
       then filter (\<lambda>kv. fst kv \<noteq> ''buttons'') MessageToolCommonSchema
       else MessageToolCommonSchema)) \<longleftrightarrow> inc"
proof (cases inc)
  case True
  then show ?thesis by (simp add: MessageToolCommonSchema_def)
next
  case False
  then show ?thesis by auto
qed

lemma schema_variants_buttons:
  assumes "''send'' \<in> set acts"
  shows "list_ex (hasField ''buttons'')
           (schemaVariants (buildMessageToolSchemaFromActions acts inc)) = inc"
    and "list_all (hasField ''buttons'')
           (schemaVariants (buildMessageToolSchemaFromActions acts inc)) = inc"
proof -
  define props where "props = (if \<not> inc
       then filter (\<lambda>kv. fst kv \<noteq> ''buttons'') MessageToolCommonSchema
       else MessageToolCommonSchema)"
  have p: "(''buttons'' \<in> fst ` set props) = inc"
    using props_buttons [of inc] by (simp add: props_def)
  define S where "S = TObject ([(''action'', TLiteral ''send''), (''to'', TString),
                             (''message'', TString)] @ props)"
  define N where "N = TObject ([(''action'', TUnion (map TLiteral (filter (\<lambda>a. a \<noteq> ''send'') acts))),
                             (''to'', TOptional TString),
                             (''message'', TOptional TString)] @ props)"
  have v: "schemaVariants (buildMessageToolSchemaFromActions acts inc)
      = (if filter (\<lambda>a. a \<noteq> ''send'') acts = [] then [S] else [S, N])"
    using assms
    by (simp add: buildMessageToolSchemaFromActions_def Let_def schemaVariants_def
        props_def [symmetric] S_def N_def)
  have hS: "hasField ''buttons'' S = inc" and hN: "hasField ''buttons'' N = inc"
    by (simp_all add: hasField_def S_def N_def p)
  show "list_ex (hasField ''buttons'')
           (schemaVariants (buildMessageToolSchemaFromActions acts inc)) = inc"
    by (simp add: v hS hN)
  show "list_all (hasField ''buttons'')
           (schemaVariants (buildMessageToolSchemaFromActions acts inc)) = inc"
    by (simp add: v hS hN)
qed

text \<open>
  Claim C7, amended: the \<^verbatim>\<open>buttons\<close> field is in the advertised schema (in every shape of
  it) if and only if there is an enabled telegram account with a credential and
  \<^verbatim>\<open>inlineButtons\<close> is listed (an entry that is \<^verbatim>\<open>inlinebuttons\<close> after JavaScript \<^verbatim>\<open>trim\<close>
  and \<^verbatim>\<open>toLowerCase\<close>, that is, up to the case of its ASCII letters and surrounding
  ECMAScript white space) in the capabilities of the telegram section or of any configured
  telegram account, enabled or not; otherwise no shape has the field.
\<close>

theorem buttons_field_advertised:
  "(list_ex (hasField ''buttons'') (schemaVariants (buildMessageToolSchema cfg)) \<longleftrightarrow>
      (\<exists>a \<in> set (accountsOf (telegram cfg)). enabled a \<and> tokenSource a \<noteq> ''none'')
      \<and> (listsInlineButtons
            (case telegram cfg of None \<Rightarrow> None | Some t \<Rightarrow> sectionCapabilities t)
          \<or> (\<exists>a \<in> set (accountsOf (telegram cfg)). listsInlineButtons (capabilities a))))
   \<and> (list_all (hasField ''buttons'') (schemaVariants (buildMessageToolSchema cfg)) \<longleftrightarrow>
        list_ex (hasField ''buttons'') (schemaVariants (buildMessageToolSchema cfg)))"
proof -
  have s: "''send'' \<in> set (buildMessageActionList cfg)"
    by (simp add: mem_catalog)
  have e: "list_ex (\<lambda>a. tokenSource a \<noteq> ''none'') (listEnabledTelegramAccounts cfg) \<longleftrightarrow>
      (\<exists>a \<in> set (accountsOf (telegram cfg)). enabled a \<and> tokenSource a \<noteq> ''none'')"
    by (auto simp: list_ex_iff listEnabledTelegramAccounts_def)
  show ?thesis
    unfolding buildMessageToolSchema_def Let_def
    by (simp only: schema_variants_buttons [OF s] e hasTelegramInlineButtons_iff)
qed

theorem buttons_field_advertised_witness:
  "list_all (hasField ''buttons'') (schemaVariants (buildMessageToolSchema
      (telegramConfig [tokenAccount\<lparr>capabilities :=
         Some [[0x00A0, 0x0020] @ codeUnits ''InlineButtons'' @ [0x2003, 0xFEFF]]\<rparr>])))
   \<and> \<not> list_ex (hasField ''buttons'') (schemaVariants (buildMessageToolSchema
      (telegramConfig [tokenAccount\<lparr>capabilities :=
         Some [codeUnits ''inline buttons'', [0x212A]]\<rparr>])))
   \<and> \<not> list_ex (hasField ''buttons'') (schemaVariants (buildMessageToolSchema
      (telegramConfig [tokenAccount])))"
  using buttons_field_advertised
      [of "telegramConfig [tokenAccount\<lparr>capabilities :=
         Some [[0x00A0, 0x0020] @ codeUnits ''InlineButtons'' @ [0x2003, 0xFEFF]]\<rparr>]"]
    buttons_field_advertised
      [of "telegramConfig [tokenAccount\<lparr>capabilities :=
         Some [codeUnits ''inline buttons'', [0x212A]]\<rparr>]"]
    buttons_field_advertised [of "telegramConfig [tokenAccount]"]
  by (simp add: telegramConfig_def cfg_simps listsInlineButtons_def toLowerCase_def
      lowerUnit_def String_trim_def isWhiteSpace_def codeUnits_def)

text \<open>
  The capability need not be on an enabled account: with one enabled account that lists
  no capability and one disabled account that lists \<^verbatim>\<open>inlineButtons\<close>, every shape of the
  schema has the \<^verbatim>\<open>buttons\<close> field.
\<close>

theorem buttons_from_disabled_account_counterexample:
  "list_all (hasField ''buttons'') (schemaVariants (buildMessageToolSchema
      (telegramConfig [tokenAccount, disabledButtonsAccount])))
   \<and> \<not> (\<exists>a \<in> set (accountsOf (telegram (telegramConfig [tokenAccount, disabledButtonsAccount]))).
          enabled a \<and> listsInlineButtons (capabilities a))
   \<and> \<not> listsInlineButtons (case telegram (telegramConfig [tokenAccount, disabledButtonsAccount])
          of None \<Rightarrow> None | Some t \<Rightarrow> sectionCapabilities t)"
proof -
  let ?cfg = "telegramConfig [tokenAccount, disabledButtonsAccount]"
  have s: "''send'' \<in> set (buildMessageActionList ?cfg)"
    by (simp add: mem_catalog)
  have inc: "list_ex (\<lambda>a. tokenSource a \<noteq> ''none'') (listEnabledTelegramAccounts ?cfg)
      \<and> hasTelegramInlineButtons ?cfg"
    by (simp add: listEnabledTelegramAccounts_def hasTelegramInlineButtons_def
        addCapabilities_def add_def Let_def telegramConfig_def disabledButtonsAccount_def
        cfg_simps toLowerCase_def lowerUnit_def String_trim_def isWhiteSpace_def
        codeUnits_def)
  have "list_all (hasField ''buttons'') (schemaVariants (buildMessageToolSchema ?cfg))"
    unfolding buildMessageToolSchema_def Let_def
    by (simp only: schema_variants_buttons [OF s] inc)
  then show ?thesis
    by (simp add: telegramConfig_def disabledButtonsAccount_def cfg_simps listsInlineButtons_def
        toLowerCase_def lowerUnit_def String_trim_def isWhiteSpace_def codeUnits_def)
qed

end
